theory Spec2Isabelle
  imports Complex_Main
begin

section \<open>Values of the extension\<close>

text \<open>
  The development embeds the class \<open>AlexProvider\<close> of \<open>src/extension.ts\<close>: its task
  list, its settings record, the Pomodoro timer, the inactivity watchdog and the focus-mode
  toggle. Numbers are JavaScript numbers restricted to integers (the webview sends
  \<open>parseInt\<close> results and array indices); \<open>NaN\<close> is kept, since arithmetic on an
  absent field produces it.
\<close>

datatype jsnum = Num int | NaN

text \<open>
  A JavaScript \<open>Date\<close> holds a time value in milliseconds since the epoch, or is the
  invalid date.
\<close>

datatype date = Date int | InvalidDate

text \<open>
  The value found under \<open>createdAt\<close>: a \<open>Date\<close> object in memory, a string or
  \<open>null\<close> in stored or transported JSON.
\<close>

datatype created = DateObj date | StrVal string | NullVal

text \<open>
  \<open>interface Task\<close>. Objects met at run time may lack properties
  (\<open>Partial<Task>\<close>, and the result of spreading \<open>undefined\<close>), so every property is
  optional: \<open>None\<close> is an absent property. The property \<open>notes\<close> is the field
  \<open>notes_field\<close>, since \<open>notes\<close> is a keyword here.
\<close>

record task =
  jiraId :: "string option"
  notes_field :: "string option"
  modifiedFiles :: "string list option"
  createdAt :: "created option"
  status :: "string option"
  environment :: "string option"

definition empty_obj :: task where
  "empty_obj = \<lparr>jiraId = None, notes_field = None, modifiedFiles = None, createdAt = None,
     status = None, environment = None\<rparr>"

text \<open>One property of \<open>{...a, ...b}\<close>: the later operand wins where it has the property.\<close>

definition override :: "'a option \<Rightarrow> 'a option \<Rightarrow> 'a option" where
  "override old new = (case new of None \<Rightarrow> old | Some v \<Rightarrow> Some v)"

text \<open>The object spread \<open>{ ...a, ...updates }\<close> on task objects.\<close>

definition spread :: "task \<Rightarrow> task \<Rightarrow> task" where
  "spread a updates =
     \<lparr>jiraId = override (jiraId a) (jiraId updates),
      notes_field = override (notes_field a) (notes_field updates),
      modifiedFiles = override (modifiedFiles a) (modifiedFiles updates),
      createdAt = override (createdAt a) (createdAt updates),
      status = override (status a) (status updates),
      environment = override (environment a) (environment updates)\<rparr>"

subsection \<open>The JavaScript array \<open>_tasks\<close>\<close>

text \<open>
  An array is its indexed elements, where \<open>None\<close> is a hole, together with the
  properties stored under negative integer keys: \<open>a[-1] = v\<close> does not touch the
  elements or the length, yet \<open>a[-1]\<close> reads \<open>v\<close> back afterwards.
\<close>

record task_array =
  elems :: "task option list"
  props :: "int \<rightharpoonup> task"

definition arr_empty :: task_array where
  "arr_empty = \<lparr>elems = [], props = Map.empty\<rparr>"

text \<open>\<open>a[i]\<close>: \<open>None\<close> is \<open>undefined\<close> (out of range, a hole, or no such property).\<close>

definition arr_get :: "task_array \<Rightarrow> int \<Rightarrow> task option" where
  "arr_get a i =
     (if 0 \<le> i then (if nat i < length (elems a) then elems a ! nat i else None)
      else props a i)"

text \<open>
  \<open>a[i] = v\<close>: inside the range the element is replaced; at or past the length the
  array grows to \<open>i + 1\<close> elements, with holes in between; a negative key is stored as a
  property.
\<close>

definition arr_set :: "task_array \<Rightarrow> int \<Rightarrow> task \<Rightarrow> task_array" where
  "arr_set a i v =
     (if 0 \<le> i then
        (if nat i < length (elems a) then a\<lparr>elems := (elems a)[nat i := Some v]\<rparr>
         else a\<lparr>elems := elems a @ replicate (nat i - length (elems a)) None @ [Some v]\<rparr>)
      else a\<lparr>props := (props a)(i \<mapsto> v)\<rparr>)"

text \<open>\<open>a.push(v)\<close>.\<close>

definition arr_push :: "task_array \<Rightarrow> task \<Rightarrow> task_array" where
  "arr_push a v = a\<lparr>elems := elems a @ [Some v]\<rparr>"

text \<open>
  \<open>a.splice(index, 1)\<close>: a negative start counts from the end and is clamped at 0, a
  start past the end is clamped at the length; then at most one element is removed.
\<close>

definition splice_start :: "nat \<Rightarrow> int \<Rightarrow> nat" where
  "splice_start len i = (if i < 0 then nat (max (int len + i) 0) else min (nat i) len)"

definition arr_splice1 :: "task_array \<Rightarrow> int \<Rightarrow> task_array" where
  "arr_splice1 a i =
     (let start = splice_start (length (elems a)) i
      in a\<lparr>elems := take start (elems a) @ drop (start + 1) (elems a)\<rparr>)"

section \<open>Strings of numbers\<close>

text \<open>
  \<open>Number.prototype.toString\<close> on integers and \<open>String.prototype.padStart\<close>, which
  the timer display and the ISO date format are built from.
\<close>

definition digit_char :: "nat \<Rightarrow> char" where
  "digit_char d = char_of (48 + d)"

definition digit_val :: "char \<Rightarrow> nat" where
  "digit_val c = of_char c - 48"

definition is_digit :: "char \<Rightarrow> bool" where
  "is_digit c = (48 \<le> (of_char c :: nat) \<and> (of_char c :: nat) \<le> 57)"

fun string_of_nat :: "nat \<Rightarrow> string" where
  "string_of_nat n =
     (if n < 10 then [digit_char n] else string_of_nat (n div 10) @ [digit_char (n mod 10)])"

declare string_of_nat.simps [simp del]

definition string_of_int :: "int \<Rightarrow> string" where
  "string_of_int i = (if i < 0 then CHR ''-'' # string_of_nat (nat (- i)) else string_of_nat (nat i))"

definition string_of_jsnum :: "jsnum \<Rightarrow> string" where
  "string_of_jsnum x = (case x of Num i \<Rightarrow> string_of_int i | NaN \<Rightarrow> ''NaN'')"

text \<open>\<open>s.padStart(n, c)\<close> for a one-character filler: a string already long enough is kept.\<close>

definition padStart :: "nat \<Rightarrow> char \<Rightarrow> string \<Rightarrow> string" where
  "padStart n c s = replicate (n - length s) c @ s"

text \<open>Reading an unsigned decimal numeral; \<open>None\<close> when a character is not a digit.\<close>

definition parse_nat :: "string \<Rightarrow> nat option" where
  "parse_nat s =
     (if s \<noteq> [] \<and> list_all is_digit s
      then Some (foldl (\<lambda>acc c. 10 * acc + digit_val c) 0 s) else None)"

section \<open>Dates: \<open>toISOString\<close> and the \<open>Date\<close> constructor\<close>

text \<open>
  The day and year arithmetic of the ECMAScript language specification (its section on
  time values and the time range), which \<open>toISOString\<close> and \<open>new Date(string)\<close> are
  defined by. Days are counted from 1 January 1970; months from 0.
\<close>

definition msPerDay :: int where
  "msPerDay = 86400000"

definition Day :: "int \<Rightarrow> int" where
  "Day t = t div msPerDay"

definition InLeapYear :: "int \<Rightarrow> bool" where
  "InLeapYear y = ((y mod 4 = 0 \<and> y mod 100 \<noteq> 0) \<or> y mod 400 = 0)"

definition DaysInYear :: "int \<Rightarrow> int" where
  "DaysInYear y = (if InLeapYear y then 366 else 365)"

definition DayFromYear :: "int \<Rightarrow> int" where
  "DayFromYear y =
     365 * (y - 1970) + (y - 1969) div 4 - (y - 1901) div 100 + (y - 1601) div 400"

text \<open>
  \<open>YearFromTime\<close> is the largest year whose first day is not after the given day. It is
  found from an estimate by stepping down, then up.
\<close>

function year_down :: "int \<Rightarrow> int \<Rightarrow> int" where
  "year_down n y = (if n < DayFromYear y then year_down n (y - 1) else y)"
  by pat_completeness auto
termination
proof (relation "measure (\<lambda>(n, y). nat (DayFromYear y - n))")
  show "wf (measure (\<lambda>(n, y). nat (DayFromYear y - n)))" by simp
next
  fix n y :: int
  assume a: "n < DayFromYear y"
  have step: "365 * (y - 1 - 1970) + a - b + c < 365 * (y - 1970) + a' - b' + c'"
    if "a \<le> a'" "b' \<le> b + 1" "c \<le> c'" for a a' b b' c c' :: int
    using that by (simp add: algebra_simps)
  have "(y - 1901) div 100 \<le> (y - 1 - 1901 + 100) div 100"
    by (rule zdiv_mono1) simp_all
  then have "(y - 1901) div 100 \<le> (y - 1 - 1901) div 100 + 1" by simp
  then have "DayFromYear (y - 1) < DayFromYear y"
    unfolding DayFromYear_def by (intro step zdiv_mono1) simp_all
  with a show "((n, y - 1), (n, y)) \<in> measure (\<lambda>(n, y). nat (DayFromYear y - n))"
    by simp
qed

function year_up :: "int \<Rightarrow> int \<Rightarrow> int" where
  "year_up n y = (if DayFromYear (y + 1) \<le> n then year_up n (y + 1) else y)"
  by pat_completeness auto
termination
proof (relation "measure (\<lambda>(n, y). nat (n - DayFromYear y))")
  show "wf (measure (\<lambda>(n, y). nat (n - DayFromYear y)))" by simp
next
  fix n y :: int
  assume a: "DayFromYear (y + 1) \<le> n"
  have step: "365 * (y - 1970) + a - b + c < 365 * (y + 1 - 1970) + a' - b' + c'"
    if "a \<le> a'" "b' \<le> b + 1" "c \<le> c'" for a a' b b' c c' :: int
    using that by (simp add: algebra_simps)
  have "(y + 1 - 1901) div 100 \<le> (y - 1901 + 100) div 100"
    by (rule zdiv_mono1) simp_all
  then have "(y + 1 - 1901) div 100 \<le> (y - 1901) div 100 + 1" by simp
  then have "DayFromYear y < DayFromYear (y + 1)"
    unfolding DayFromYear_def by (intro step zdiv_mono1) simp_all
  with a show "((n, y + 1), (n, y)) \<in> measure (\<lambda>(n, y). nat (n - DayFromYear y))"
    by simp
qed

declare year_down.simps [simp del]
declare year_up.simps [simp del]

definition YearFromDay :: "int \<Rightarrow> int" where
  "YearFromDay n = year_up n (year_down n (1970 + n div 366))"

text \<open>The first day of each month within its year (\<open>leap\<close> is 1 in a leap year).\<close>

definition month_start :: "int \<Rightarrow> int \<Rightarrow> int" where
  "month_start leap m =
     (if m = 0 then 0 else if m = 1 then 31 else if m = 2 then 59 + leap
      else if m = 3 then 90 + leap else if m = 4 then 120 + leap
      else if m = 5 then 151 + leap else if m = 6 then 181 + leap
      else if m = 7 then 212 + leap else if m = 8 then 243 + leap
      else if m = 9 then 273 + leap else if m = 10 then 304 + leap
      else 334 + leap)"

text \<open>\<open>MonthFromTime\<close>, from the day within the year.\<close>

definition month_of :: "int \<Rightarrow> int \<Rightarrow> int" where
  "month_of leap d =
     (if d < 31 then 0 else if d < 59 + leap then 1 else if d < 90 + leap then 2
      else if d < 120 + leap then 3 else if d < 151 + leap then 4
      else if d < 181 + leap then 5 else if d < 212 + leap then 6
      else if d < 243 + leap then 7 else if d < 273 + leap then 8
      else if d < 304 + leap then 9 else if d < 334 + leap then 10 else 11)"

definition leap_days :: "int \<Rightarrow> int" where
  "leap_days y = (if InLeapYear y then 1 else 0)"

text \<open>\<open>HourFromTime\<close>, \<open>MinFromTime\<close>, \<open>SecFromTime\<close>, \<open>msFromTime\<close>.\<close>

definition HourFromTime :: "int \<Rightarrow> int" where
  "HourFromTime t = (t div 3600000) mod 24"

definition MinFromTime :: "int \<Rightarrow> int" where
  "MinFromTime t = (t div 60000) mod 60"

definition SecFromTime :: "int \<Rightarrow> int" where
  "SecFromTime t = (t div 1000) mod 60"

definition msFromTime :: "int \<Rightarrow> int" where
  "msFromTime t = t mod 1000"

text \<open>A field of the ISO format: its decimal digits, padded with zeros to a width.\<close>

definition field :: "nat \<Rightarrow> int \<Rightarrow> string" where
  "field w v = padStart w CHR ''0'' (string_of_nat (nat v))"

text \<open>
  The year of the ISO format: four digits for the years 0 to 9999, otherwise a sign and
  six digits.
\<close>

definition year_string :: "int \<Rightarrow> string" where
  "year_string y =
     (if 0 \<le> y \<and> y \<le> 9999 then field 4 y
      else (if y < 0 then CHR ''-'' else CHR ''+'') # field 6 (abs y))"

text \<open>
  \<open>Date.prototype.toISOString\<close> on a valid time value:
  \<open>YYYY-MM-DDTHH:mm:ss.sssZ\<close>.
\<close>

definition toISOString :: "int \<Rightarrow> string" where
  "toISOString t =
     (let n = Day t;
          y = YearFromDay n;
          d = n - DayFromYear y;
          m = month_of (leap_days y) d;
          dt = d - month_start (leap_days y) m + 1
      in year_string y @ ''-'' @ field 2 (m + 1) @ ''-'' @ field 2 dt @ ''T''
         @ field 2 (HourFromTime t) @ '':'' @ field 2 (MinFromTime t) @ '':''
         @ field 2 (SecFromTime t) @ ''.'' @ field 3 (msFromTime t) @ ''Z'')"

text \<open>\<open>MakeDay\<close>, \<open>MakeTime\<close>, \<open>MakeDate\<close> and \<open>TimeClip\<close>.\<close>

definition MakeDay :: "int \<Rightarrow> int \<Rightarrow> int \<Rightarrow> int" where
  "MakeDay y m dt = DayFromYear y + month_start (leap_days y) m + dt - 1"

definition MakeTime :: "int \<Rightarrow> int \<Rightarrow> int \<Rightarrow> int \<Rightarrow> int" where
  "MakeTime h mi sec ms = h * 3600000 + mi * 60000 + sec * 1000 + ms"

definition MakeDate :: "int \<Rightarrow> int \<Rightarrow> int" where
  "MakeDate day time = day * msPerDay + time"

definition TimeClip :: "int \<Rightarrow> date" where
  "TimeClip t = (if abs t \<le> 8640000000000000 then Date t else InvalidDate)"

text \<open>The substring \<open>s.substring(i, j)\<close>.\<close>

definition substring :: "nat \<Rightarrow> nat \<Rightarrow> string \<Rightarrow> string" where
  "substring i j s = take (j - i) (drop i s)"

text \<open>
  Reading \<open>-MM-DDTHH:mm:ss.sssZ\<close> after the year. The bounds of the fields are those
  of the format (months 01 to 12, days 01 to 31, hours 00 to 23 or the instant 24:00:00.000,
  minutes and seconds 00 to 59). A string that is not of this shape, or has a field out of
  its bounds, gives the invalid date (what an engine accepts beyond the ISO format is
  implementation-defined and is not modelled).
\<close>

definition parse_tail :: "int \<Rightarrow> string \<Rightarrow> date" where
  "parse_tail y r =
     (if length r = 20 \<and> r ! 0 = CHR ''-'' \<and> r ! 3 = CHR ''-'' \<and> r ! 6 = CHR ''T''
         \<and> r ! 9 = CHR '':'' \<and> r ! 12 = CHR '':'' \<and> r ! 15 = CHR ''.'' \<and> r ! 19 = CHR ''Z''
      then
        (case (parse_nat (substring 1 3 r), parse_nat (substring 4 6 r),
               parse_nat (substring 7 9 r), parse_nat (substring 10 12 r),
               parse_nat (substring 13 15 r), parse_nat (substring 16 19 r)) of
           (Some mo, Some dt, Some h, Some mi, Some sec, Some ms) \<Rightarrow>
             if 1 \<le> mo \<and> mo \<le> 12 \<and> 1 \<le> dt \<and> dt \<le> 31 \<and> mi \<le> 59 \<and> sec \<le> 59
                \<and> (h \<le> 23 \<or> (h = 24 \<and> mi = 0 \<and> sec = 0 \<and> ms = 0))
             then TimeClip (MakeDate (MakeDay y (int mo - 1) (int dt))
                                     (MakeTime (int h) (int mi) (int sec) (int ms)))
             else InvalidDate
         | _ \<Rightarrow> InvalidDate)
      else InvalidDate)"

text \<open>\<open>Date.parse\<close> on the ISO format, as a \<open>Date\<close>.\<close>

definition parse_iso :: "string \<Rightarrow> date" where
  "parse_iso s =
     (case s of
        [] \<Rightarrow> InvalidDate
      | c # r \<Rightarrow>
          if c = CHR ''+'' \<or> c = CHR ''-'' then
            (case parse_nat (take 6 r) of
               Some y \<Rightarrow>
                 if length r = 26 \<and> \<not> (c = CHR ''-'' \<and> y = 0)
                 then parse_tail (if c = CHR ''-'' then - int y else int y) (drop 6 r)
                 else InvalidDate
             | None \<Rightarrow> InvalidDate)
          else
            (case parse_nat (take 4 s) of
               Some y \<Rightarrow> if length s = 24 then parse_tail (int y) (drop 4 s) else InvalidDate
             | None \<Rightarrow> InvalidDate))"

text \<open>
  \<open>new Date(v)\<close> for the values a \<open>createdAt\<close> property can hold: \<open>undefined\<close> gives
  the invalid date, \<open>null\<close> converts to 0, a string is parsed, a \<open>Date\<close> is copied.
\<close>

definition new_Date :: "created option \<Rightarrow> date" where
  "new_Date v =
     (case v of
        None \<Rightarrow> InvalidDate
      | Some (DateObj d) \<Rightarrow> d
      | Some (StrVal s) \<Rightarrow> parse_iso s
      | Some NullVal \<Rightarrow> Date 0)"

text \<open>The exceptions the code can meet.\<close>

datatype error = RangeError | TypeError

text \<open>\<open>d.toISOString()\<close> throws \<open>RangeError\<close> on the invalid date.\<close>

definition date_toISOString :: "date \<Rightarrow> error + string" where
  "date_toISOString d = (case d of Date t \<Rightarrow> Inr (toISOString t) | InvalidDate \<Rightarrow> Inl RangeError)"

text \<open>
  \<open>JSON.stringify\<close> on a \<open>createdAt\<close> value, as the host's store applies it:
  \<open>Date.prototype.toJSON\<close> gives the ISO string, and \<open>null\<close> for the invalid date.
\<close>

definition json_created :: "created \<Rightarrow> created" where
  "json_created v =
     (case v of
        DateObj (Date t) \<Rightarrow> StrVal (toISOString t)
      | DateObj InvalidDate \<Rightarrow> NullVal
      | StrVal s \<Rightarrow> StrVal s
      | NullVal \<Rightarrow> NullVal)"

section \<open>Settings\<close>

text \<open>
  \<open>interface AlexSettings\<close>. The three sub-records arrive from the webview as they
  are, so their properties may be absent (\<open>None\<close>); the five top-level properties are
  always present.
\<close>

record pomodoro_settings =
  workDuration :: "int option"
  shortBreakDuration :: "int option"
  longBreakDuration :: "int option"
  longBreakInterval :: "int option"

record focus_settings =
  hideSidebar :: "bool option"
  hideActivityBar :: "bool option"
  hideStatusBar :: "bool option"
  hidePanel :: "bool option"
  hideMinimap :: "bool option"
  hideLineNumbers :: "bool option"

record notification_settings =
  enableInactivityAlerts :: "bool option"
  inactivityThreshold :: "int option"
  enablePomodoroNotifications :: "bool option"
  enableTaskReminders :: "bool option"

record alex_settings =
  taskStatuses :: "string list"
  environments :: "string list"
  pomodoro :: pomodoro_settings
  focusMode :: focus_settings
  notifications :: notification_settings

text \<open>\<open>Partial<AlexSettings>\<close>: each top-level property may be absent.\<close>

record partial_settings =
  p_taskStatuses :: "string list option"
  p_environments :: "string list option"
  p_pomodoro :: "pomodoro_settings option"
  p_focusMode :: "focus_settings option"
  p_notifications :: "notification_settings option"

definition no_settings :: partial_settings where
  "no_settings = \<lparr>p_taskStatuses = None, p_environments = None, p_pomodoro = None,
     p_focusMode = None, p_notifications = None\<rparr>"

text \<open>
  The spread \<open>{ ...this._settings, ...settings }\<close>: a top-level property that is present
  replaces the current one as a whole.
\<close>

definition merge_settings :: "alex_settings \<Rightarrow> partial_settings \<Rightarrow> alex_settings" where
  "merge_settings cur upd =
     \<lparr>taskStatuses = (case p_taskStatuses upd of None \<Rightarrow> taskStatuses cur | Some v \<Rightarrow> v),
      environments = (case p_environments upd of None \<Rightarrow> environments cur | Some v \<Rightarrow> v),
      pomodoro = (case p_pomodoro upd of None \<Rightarrow> pomodoro cur | Some v \<Rightarrow> v),
      focusMode = (case p_focusMode upd of None \<Rightarrow> focusMode cur | Some v \<Rightarrow> v),
      notifications = (case p_notifications upd of None \<Rightarrow> notifications cur | Some v \<Rightarrow> v)\<rparr>"

subsection \<open>The host's configuration\<close>

text \<open>
  The values the host keeps under its configuration keys, and the configuration as a map
  from full keys such as \<open>alex.pomodoro\<close> to values.
\<close>

datatype cfg_value =
    CNum int
  | CBool bool
  | CStr string
  | CStrs "string list"
  | CPomodoro pomodoro_settings
  | CFocus focus_settings
  | CNotifications notification_settings

type_synonym configuration = "string \<rightharpoonup> cfg_value"

text \<open>\<open>x || d\<close> on a number that may be absent: 0 and \<open>undefined\<close> give the default.\<close>

definition num_or :: "int option \<Rightarrow> int \<Rightarrow> int" where
  "num_or x d = (case x of None \<Rightarrow> d | Some v \<Rightarrow> if v = 0 then d else v)"

text \<open>\<open>x ?? d\<close> on a boolean that may be absent.\<close>

definition bool_or :: "bool option \<Rightarrow> bool \<Rightarrow> bool" where
  "bool_or x d = (case x of None \<Rightarrow> d | Some v \<Rightarrow> v)"

text \<open>Reading the objects and lists under the section \<open>alex\<close>.\<close>

definition cfg_strs :: "configuration \<Rightarrow> string \<Rightarrow> string list option" where
  "cfg_strs c k = (case c k of Some (CStrs l) \<Rightarrow> Some l | _ \<Rightarrow> None)"


definition cfg_pomodoro :: "configuration \<Rightarrow> pomodoro_settings" where
  "cfg_pomodoro c =
     (case c ''alex.pomodoro'' of Some (CPomodoro p) \<Rightarrow> p
      | _ \<Rightarrow> \<lparr>workDuration = None, shortBreakDuration = None, longBreakDuration = None,
               longBreakInterval = None\<rparr>)"

definition cfg_focus :: "configuration \<Rightarrow> focus_settings" where
  "cfg_focus c =
     (case c ''alex.focusMode'' of Some (CFocus f) \<Rightarrow> f
      | _ \<Rightarrow> \<lparr>hideSidebar = None, hideActivityBar = None, hideStatusBar = None,
               hidePanel = None, hideMinimap = None, hideLineNumbers = None\<rparr>)"

definition cfg_notifications :: "configuration \<Rightarrow> notification_settings" where
  "cfg_notifications c =
     (case c ''alex.notifications'' of Some (CNotifications n) \<Rightarrow> n
      | _ \<Rightarrow> \<lparr>enableInactivityAlerts = None, inactivityThreshold = None,
               enablePomodoroNotifications = None, enableTaskReminders = None\<rparr>)"

text \<open>\<open>_loadSettings\<close>: every property is read on its own, with its default.\<close>

definition loadSettings :: "configuration \<Rightarrow> alex_settings" where
  "loadSettings c =
     \<lparr>taskStatuses = (case cfg_strs c ''alex.taskStatuses'' of Some l \<Rightarrow> l
          | None \<Rightarrow> [''dev'', ''code_review'', ''to_deploy'', ''deployed'']),
      environments = (case cfg_strs c ''alex.environments'' of Some l \<Rightarrow> l
          | None \<Rightarrow> [''dev'', ''centest'', ''uat'', ''weekc'', ''production'']),
      pomodoro =
        \<lparr>workDuration = Some (num_or (workDuration (cfg_pomodoro c)) 25),
         shortBreakDuration = Some (num_or (shortBreakDuration (cfg_pomodoro c)) 5),
         longBreakDuration = Some (num_or (longBreakDuration (cfg_pomodoro c)) 15),
         longBreakInterval = Some (num_or (longBreakInterval (cfg_pomodoro c)) 4)\<rparr>,
      focusMode =
        \<lparr>hideSidebar = Some (bool_or (hideSidebar (cfg_focus c)) True),
         hideActivityBar = Some (bool_or (hideActivityBar (cfg_focus c)) True),
         hideStatusBar = Some (bool_or (hideStatusBar (cfg_focus c)) True),
         hidePanel = Some (bool_or (hidePanel (cfg_focus c)) True),
         hideMinimap = Some (bool_or (hideMinimap (cfg_focus c)) True),
         hideLineNumbers = Some (bool_or (hideLineNumbers (cfg_focus c)) True)\<rparr>,
      notifications =
        \<lparr>enableInactivityAlerts = Some (bool_or (enableInactivityAlerts (cfg_notifications c)) True),
         inactivityThreshold = Some (num_or (inactivityThreshold (cfg_notifications c)) 5),
         enablePomodoroNotifications =
           Some (bool_or (enablePomodoroNotifications (cfg_notifications c)) True),
         enableTaskReminders = Some (bool_or (enableTaskReminders (cfg_notifications c)) True)\<rparr>\<rparr>"

section \<open>The provider\<close>

text \<open>
  What the provider does to the outside, in the order it happens: messages posted to the
  webview, notifications shown, and writes to the host's two stores.
\<close>

datatype event =
    PostUpdateTimer string
  | PostFocusModeChanged bool
  | PostUpdateTasks "task option list"
  | PostUpdateSettings alex_settings
  | InfoMessage string
  | ErrorMessage string
  | GlobalStateUpdate "task option list"
  | ConfigUpdate string cfg_value

text \<open>
  The fields of \<open>AlexProvider\<close>, with the host's stores and the events so far.
  \<open>view\<close> tells whether \<open>_view\<close> is set. \<open>pomodoroTimer\<close> is \<open>None\<close> when no
  interval is installed, and otherwise holds the end time that the interval's callback
  has captured. \<open>globalState\<close> is the JSON under the key \<open>alex.tasks\<close> (an entry
  \<open>None\<close> of the list is \<open>null\<close>).
\<close>

record provider =
  view :: bool
  tasks :: task_array
  pomodoroTimer :: "jsnum option"
  lastActivityTime :: int
  isFocusMode :: bool
  settings :: alex_settings
  globalState :: "task option list option"
  config :: configuration
  trace :: "event list"

definition emit :: "event \<Rightarrow> provider \<Rightarrow> provider" where
  "emit e s = s\<lparr>trace := trace s @ [e]\<rparr>"

subsection \<open>Sending and storing the tasks\<close>

text \<open>
  The expression of \<open>_updateWebview\<close> for one \<open>createdAt\<close>:
  \<open>task.createdAt instanceof Date ? task.createdAt.toISOString()
     : new Date(task.createdAt).toISOString()\<close>.
\<close>

definition serialize_created :: "created option \<Rightarrow> error + string" where
  "serialize_created v =
     (case v of
        Some (DateObj d) \<Rightarrow> date_toISOString d
      | _ \<Rightarrow> date_toISOString (new_Date v))"

definition serialize_task :: "task \<Rightarrow> error + task" where
  "serialize_task t =
     (case serialize_created (createdAt t) of
        Inl e \<Rightarrow> Inl e
      | Inr str \<Rightarrow> Inr (t\<lparr>createdAt := Some (StrVal str)\<rparr>))"

text \<open>\<open>this._tasks.map(...)\<close>: holes are skipped and stay holes; an exception ends the map.\<close>

fun serialize_tasks :: "task option list \<Rightarrow> error + task option list" where
  "serialize_tasks [] = Inr []"
| "serialize_tasks (None # ts) =
     (case serialize_tasks ts of Inl e \<Rightarrow> Inl e | Inr r \<Rightarrow> Inr (None # r))"
| "serialize_tasks (Some t # ts) =
     (case serialize_task t of
        Inl e \<Rightarrow> Inl e
      | Inr t' \<Rightarrow> (case serialize_tasks ts of Inl e \<Rightarrow> Inl e | Inr r \<Rightarrow> Inr (Some t' # r)))"

definition error_text :: "error \<Rightarrow> string" where
  "error_text e =
     (case e of RangeError \<Rightarrow> ''RangeError: Invalid time value''
      | TypeError \<Rightarrow> ''TypeError: Cannot read properties of null'')"

text \<open>\<open>_updateWebview\<close>: nothing without a view; an exception is caught and shown.\<close>

definition updateWebview :: "provider \<Rightarrow> provider" where
  "updateWebview s =
     (if view s then
        (case serialize_tasks (elems (tasks s)) of
           Inr ts \<Rightarrow> emit (PostUpdateTasks ts) s
         | Inl e \<Rightarrow> emit (ErrorMessage (''Error updating webview: '' @ error_text e)) s)
      else s)"

text \<open>
  \<open>this._context.globalState.update('alex.tasks', this._tasks)\<close>: the host keeps the
  JSON of the array, that is of its elements, a hole as \<open>null\<close>. The write is taken to
  succeed.
\<close>

definition json_task :: "task \<Rightarrow> task" where
  "json_task t = t\<lparr>createdAt := map_option json_created (createdAt t)\<rparr>"

definition json_tasks :: "task_array \<Rightarrow> task option list" where
  "json_tasks a = map (map_option json_task) (elems a)"

definition globalState_update :: "provider \<Rightarrow> provider" where
  "globalState_update s =
     emit (GlobalStateUpdate (json_tasks (tasks s))) (s\<lparr>globalState := Some (json_tasks (tasks s))\<rparr>)"

subsection \<open>Loading the tasks (the constructor)\<close>

text \<open>
  \<open>savedTasks.map(task => ({ ...task, createdAt: new Date(task.createdAt) }))\<close>: reading
  \<open>createdAt\<close> of a \<open>null\<close> entry throws \<open>TypeError\<close>.
\<close>

definition revive :: "task option \<Rightarrow> error + task" where
  "revive e =
     (case e of
        None \<Rightarrow> Inl TypeError
      | Some t \<Rightarrow> Inr (t\<lparr>createdAt := Some (DateObj (new_Date (createdAt t)))\<rparr>))"

fun revive_all :: "task option list \<Rightarrow> error + task list" where
  "revive_all [] = Inr []"
| "revive_all (e # es) =
     (case revive e of
        Inl err \<Rightarrow> Inl err
      | Inr t \<Rightarrow> (case revive_all es of Inl err \<Rightarrow> Inl err | Inr r \<Rightarrow> Inr (t # r)))"

text \<open>\<open>globalState.get('alex.tasks') || []\<close>, then the map above.\<close>

definition load_tasks :: "task option list option \<Rightarrow> error + task_array" where
  "load_tasks saved =
     (case revive_all (case saved of None \<Rightarrow> [] | Some l \<Rightarrow> l) of
        Inl err \<Rightarrow> Inl err
      | Inr ts \<Rightarrow> Inr \<lparr>elems = map Some ts, props = Map.empty\<rparr>)"

text \<open>
  The constructor, from the host's two stores and the current time. No timer runs, focus
  mode is off and no view is attached yet.
\<close>

definition new_provider :: "task option list option \<Rightarrow> configuration \<Rightarrow> int \<Rightarrow> error + provider" where
  "new_provider saved c now =
     (case load_tasks saved of
        Inl err \<Rightarrow> Inl err
      | Inr a \<Rightarrow>
          Inr \<lparr>view = False, tasks = a, pomodoroTimer = None, lastActivityTime = now,
               isFocusMode = False, settings = loadSettings c, globalState = saved,
               config = c, trace = []\<rparr>)"

text \<open>\<open>resolveWebviewView\<close>: the view is attached, then the settings and tasks are sent.\<close>

definition resolveWebviewView :: "provider \<Rightarrow> provider" where
  "resolveWebviewView s = updateWebview (emit (PostUpdateSettings (settings s)) (s\<lparr>view := True\<rparr>))"

subsection \<open>Task operations\<close>

text \<open>
  \<open>_addTask\<close>, at the time \<open>now\<close> that \<open>new Date()\<close> reads. The first component is the
  value the call resolves with: the function has no \<open>return\<close>, so it is \<open>undefined\<close>
  (\<open>None\<close>).
\<close>

definition new_task :: "string \<Rightarrow> string \<Rightarrow> string \<Rightarrow> string \<Rightarrow> string list \<Rightarrow> int \<Rightarrow> task" where
  "new_task jid nts st env selectedFiles now =
     \<lparr>jiraId = Some jid, notes_field = Some nts, modifiedFiles = Some selectedFiles,
      createdAt = Some (DateObj (Date now)), status = Some st, environment = Some env\<rparr>"

definition addTask ::
  "string \<Rightarrow> string \<Rightarrow> string \<Rightarrow> string \<Rightarrow> string list \<Rightarrow> int \<Rightarrow> provider
     \<Rightarrow> task option \<times> provider" where
  "addTask jid nts st env selectedFiles now s =
     (let s1 = s\<lparr>tasks := arr_push (tasks s) (new_task jid nts st env selectedFiles now)\<rparr>;
          s2 = globalState_update s1;
          s3 = updateWebview s2
      in (None, emit (InfoMessage (''Task '' @ jid @ '' added successfully!'')) s3))"

text \<open>\<open>_deleteTask\<close>.\<close>

definition deleteTask :: "int \<Rightarrow> provider \<Rightarrow> provider" where
  "deleteTask index s =
     (let s1 = s\<lparr>tasks := arr_splice1 (tasks s) index\<rparr>;
          s2 = globalState_update s1;
          s3 = updateWebview s2
      in emit (InfoMessage ''Task deleted successfully!'') s3)"

text \<open>
  \<open>_updateTask\<close>: \<open>this._tasks[index] = { ...this._tasks[index], ...updates }\<close>, where
  spreading \<open>undefined\<close> adds nothing.
\<close>

definition updateTask :: "int \<Rightarrow> task \<Rightarrow> provider \<Rightarrow> provider" where
  "updateTask index updates s =
     (let cur = (case arr_get (tasks s) index of None \<Rightarrow> empty_obj | Some t \<Rightarrow> t);
          s1 = s\<lparr>tasks := arr_set (tasks s) index (spread cur updates)\<rparr>;
          s2 = globalState_update s1;
          s3 = updateWebview s2
      in emit (InfoMessage ''Task updated successfully!'') s3)"

text \<open>What the spec calls \<open>list()\<close>: the elements of the sequence, in order.\<close>

definition list_tasks :: "provider \<Rightarrow> task option list" where
  "list_tasks s = elems (tasks s)"

subsection \<open>The Pomodoro timer\<close>

text \<open>The template \<open>${duration}\<close> on a duration that may be absent.\<close>

definition duration_text :: "int option \<Rightarrow> string" where
  "duration_text d = (case d of None \<Rightarrow> ''undefined'' | Some v \<Rightarrow> string_of_int v)"

text \<open>
  \<open>_startPomodoro\<close> at the time \<open>now\<close>: a running interval is cleared and a new one is
  installed with \<open>endTime = Date.now() + duration * 60 * 1000\<close>; then the first display
  is sent.
\<close>

definition startPomodoro :: "int \<Rightarrow> provider \<Rightarrow> provider" where
  "startPomodoro now s =
     (let duration = workDuration (pomodoro (settings s));
          endTime = (case duration of None \<Rightarrow> NaN | Some d \<Rightarrow> Num (now + d * 60 * 1000));
          s1 = s\<lparr>pomodoroTimer := Some endTime\<rparr>
      in if view s1 then emit (PostUpdateTimer (duration_text duration @ '':00'')) s1 else s1)"

text \<open>\<open>Math.max(0, endTime - Date.now())\<close>.\<close>

definition remaining_time :: "jsnum \<Rightarrow> int \<Rightarrow> jsnum" where
  "remaining_time endTime now = (case endTime of NaN \<Rightarrow> NaN | Num e \<Rightarrow> Num (max 0 (e - now)))"

text \<open>The display of a tick that is not the last: minutes, a colon, seconds padded to two.\<close>

definition tick_text :: "jsnum \<Rightarrow> string" where
  "tick_text remaining =
     (let minutes = (case remaining of NaN \<Rightarrow> NaN | Num r \<Rightarrow> Num (r div (60 * 1000)));
          seconds = (case remaining of NaN \<Rightarrow> NaN | Num r \<Rightarrow> Num ((r mod (60 * 1000)) div 1000))
      in string_of_jsnum minutes @ '':'' @ padStart 2 CHR ''0'' (string_of_jsnum seconds))"

text \<open>
  One run of the interval's callback at the time \<open>now\<close>. Without an installed interval
  there is no callback, and nothing happens.
\<close>

definition pomodoro_tick :: "int \<Rightarrow> provider \<Rightarrow> provider" where
  "pomodoro_tick now s =
     (case pomodoroTimer s of
        None \<Rightarrow> s
      | Some endTime \<Rightarrow>
          (let remaining = remaining_time endTime now in
           if remaining = Num 0 then
             (let s1 = emit (InfoMessage ''Pomodoro session complete! Time for a break.'') s;
                  s2 = s1\<lparr>pomodoroTimer := None\<rparr>
              in if view s2 then emit (PostUpdateTimer ''00:00'') s2 else s2)
           else if view s then emit (PostUpdateTimer (tick_text remaining)) s else s))"

text \<open>The callback run at each of the given times, in order.\<close>

fun pomodoro_ticks :: "int list \<Rightarrow> provider \<Rightarrow> provider" where
  "pomodoro_ticks [] s = s"
| "pomodoro_ticks (now # nows) s = pomodoro_ticks nows (pomodoro_tick now s)"

subsection \<open>Saving settings\<close>

text \<open>
  \<open>config.update(key, value, true)\<close> on the host's configuration. The write is taken
  to succeed.
\<close>

definition config_update :: "string \<Rightarrow> cfg_value \<Rightarrow> provider \<Rightarrow> provider" where
  "config_update k v s = emit (ConfigUpdate k v) (s\<lparr>config := (config s)(k \<mapsto> v)\<rparr>)"

text \<open>
  \<open>_saveSettings\<close>; \<open>now\<close> is the time at which a restart of the timer reads the clock.
  An object is truthy, so \<open>settings.pomodoro\<close> holds exactly when the property is there.
\<close>

definition saveSettings :: "partial_settings \<Rightarrow> int \<Rightarrow> provider \<Rightarrow> provider" where
  "saveSettings upd now s =
     (let s1 = s\<lparr>settings := merge_settings (settings s) upd\<rparr>;
          s2 = config_update ''alex.taskStatuses'' (CStrs (taskStatuses (settings s1))) s1;
          s3 = config_update ''alex.environments'' (CStrs (environments (settings s2))) s2;
          s4 = config_update ''alex.pomodoro'' (CPomodoro (pomodoro (settings s3))) s3;
          s5 = config_update ''alex.focusMode'' (CFocus (focusMode (settings s4))) s4;
          s6 = config_update ''alex.notifications'' (CNotifications (notifications (settings s5))) s5;
          s7 = (if p_pomodoro upd \<noteq> None \<and> pomodoroTimer s6 \<noteq> None
                then startPomodoro now s6 else s6)
      in updateWebview s7)"

subsection \<open>The inactivity watchdog\<close>

text \<open>The handler of \<open>onDidChangeActiveTextEditor\<close>.\<close>

definition activity :: "int \<Rightarrow> provider \<Rightarrow> provider" where
  "activity now s = s\<lparr>lastActivityTime := now\<rparr>"





subsection \<open>Focus mode\<close>

text \<open>A flag of the focus settings is acted on when it is truthy.\<close>

definition truthy :: "bool option \<Rightarrow> bool" where
  "truthy b = (b = Some True)"

definition update_if :: "bool \<Rightarrow> string \<Rightarrow> cfg_value \<Rightarrow> provider \<Rightarrow> provider" where
  "update_if b k v s = (if b then config_update k v s else s)"

text \<open>\<open>_toggleFocusMode\<close>, with the six updates in the order of the source.\<close>

definition toggleFocusMode :: "provider \<Rightarrow> provider" where
  "toggleFocusMode s =
     (let s1 = s\<lparr>isFocusMode := \<not> isFocusMode s\<rparr>;
          f = focusMode (settings s1);
          on = isFocusMode s1;
          s2 = update_if (truthy (hideSidebar f)) ''workbench.sideBar.visible'' (CBool (\<not> on)) s1;
          s3 = update_if (truthy (hideMinimap f)) ''editor.minimap.enabled'' (CBool (\<not> on)) s2;
          s4 = update_if (truthy (hideLineNumbers f)) ''editor.lineNumbers''
                 (CStr (if on then ''off'' else ''on'')) s3;
          s5 = update_if (truthy (hideActivityBar f)) ''workbench.activityBar.visible'' (CBool (\<not> on)) s4;
          s6 = update_if (truthy (hideStatusBar f)) ''workbench.statusBar.visible'' (CBool (\<not> on)) s5;
          s7 = update_if (truthy (hidePanel f)) ''workbench.panel.visible'' (CBool (\<not> on)) s6;
          s8 = (if view s7 then emit (PostFocusModeChanged on) s7 else s7)
      in emit (InfoMessage
                 (if on then ''Focus Mode Enabled: Distractions minimized for better concentration''
                  else ''Focus Mode Disabled: All UI elements restored'')) s8)"

text \<open>The payloads of the \<open>focusModeChanged\<close> messages among some events, in order.\<close>

fun focus_events :: "event list \<Rightarrow> bool list" where
  "focus_events [] = []"
| "focus_events (PostFocusModeChanged b # es) = b # focus_events es"
| "focus_events (_ # es) = focus_events es"

text \<open>The displays sent to the timer, and the notifications shown, among some events.\<close>

fun timer_events :: "event list \<Rightarrow> string list" where
  "timer_events [] = []"
| "timer_events (PostUpdateTimer t # es) = t # timer_events es"
| "timer_events (_ # es) = timer_events es"

fun info_events :: "event list \<Rightarrow> string list" where
  "info_events [] = []"
| "info_events (InfoMessage m # es) = m # info_events es"
| "info_events (_ # es) = info_events es"

subsection \<open>Runs of calls and readings of the state\<close>

text \<open>
  One call of \<open>addTask\<close>: its five arguments and the time the clock shows during it.
\<close>

record add_call =
  call_id :: string
  call_notes :: string
  call_status :: string
  call_environment :: string
  call_files :: "string list"
  call_now :: int

definition task_of_call :: "add_call \<Rightarrow> task" where
  "task_of_call c =
     new_task (call_id c) (call_notes c) (call_status c) (call_environment c) (call_files c)
       (call_now c)"

definition addTask_call :: "add_call \<Rightarrow> provider \<Rightarrow> task option \<times> provider" where
  "addTask_call c s =
     addTask (call_id c) (call_notes c) (call_status c) (call_environment c) (call_files c)
       (call_now c) s"

text \<open>A sequence of \<open>addTask\<close> calls, one after the other.\<close>

fun addTasks :: "add_call list \<Rightarrow> provider \<Rightarrow> provider" where
  "addTasks [] s = s"
| "addTasks (c # cs) s = addTasks cs (snd (addTask_call c s))"

text \<open>The time values of the \<open>createdAt\<close> dates of a sequence, in order.\<close>

fun created_times :: "task option list \<Rightarrow> int list" where
  "created_times [] = []"
| "created_times (e # es) =
     (case e of
        Some t \<Rightarrow>
          (case createdAt t of
             Some (DateObj (Date ms)) \<Rightarrow> ms # created_times es
           | _ \<Rightarrow> created_times es)
      | None \<Rightarrow> created_times es)"

text \<open>
  The shape that the spec names \<open>mm:ss\<close>: two digits, a colon, two digits.
\<close>

definition is_mm_ss :: "string \<Rightarrow> bool" where
  "is_mm_ss str =
     (case str of
        [a, b, c, d, e] \<Rightarrow> is_digit a \<and> is_digit b \<and> c = CHR '':'' \<and> is_digit d \<and> is_digit e
      | _ \<Rightarrow> False)"

text \<open>The time values a \<open>Date\<close> can hold.\<close>

definition valid_time :: "int \<Rightarrow> bool" where
  "valid_time t = (abs t \<le> 8640000000000000)"

text \<open>An element that is a task whose \<open>createdAt\<close> is a valid \<open>Date\<close>.\<close>

definition dated :: "task option \<Rightarrow> bool" where
  "dated e =
     (case e of
        Some t \<Rightarrow> (case createdAt t of Some (DateObj (Date ms)) \<Rightarrow> valid_time ms | _ \<Rightarrow> False)
      | None \<Rightarrow> False)"

text \<open>
  What \<open>toISOString\<close> writes after the year, for a month, a day of the month and a
  time value.
\<close>

definition iso_tail :: "int \<Rightarrow> int \<Rightarrow> int \<Rightarrow> string" where
  "iso_tail m dt t = ''-'' @ field 2 (m + 1) @ ''-'' @ field 2 dt @ ''T''
         @ field 2 (HourFromTime t) @ '':'' @ field 2 (MinFromTime t) @ '':''
         @ field 2 (SecFromTime t) @ ''.'' @ field 3 (msFromTime t) @ ''Z''"

section \<open>Example values\<close>

text \<open>Two tasks and a provider holding them, with a view attached and the default settings.\<close>

definition task_a :: task where
  "task_a = new_task ''PROJ-1'' [] ''dev'' ''dev'' [] 1700000000123"

definition task_b :: task where
  "task_b = new_task ''PROJ-2'' ''fix login'' ''code_review'' ''uat'' [''src/a.ts''] 1700000060000"

definition empty_provider :: provider where
  "empty_provider =
     \<lparr>view = True, tasks = arr_empty, pomodoroTimer = None, lastActivityTime = 1700000000000,
      isFocusMode = False, settings = loadSettings Map.empty, globalState = None,
      config = Map.empty, trace = []\<rparr>"

definition two_tasks :: provider where
  "two_tasks = empty_provider\<lparr>tasks := \<lparr>elems = [Some task_a, Some task_b], props = Map.empty\<rparr>\<rparr>"

text \<open>Two partial records for \<open>updateTask\<close>: a new status, and a new \<open>createdAt\<close>.\<close>

definition only_status :: task where
  "only_status = empty_obj\<lparr>status := Some ''deployed''\<rparr>"

definition only_created :: task where
  "only_created = empty_obj\<lparr>createdAt := Some (StrVal ''2020-01-01T00:00:00.000Z'')\<rparr>"

text \<open>Two Pomodoro sub-records: one with the work duration only, one complete.\<close>

definition work_50 :: pomodoro_settings where
  "work_50 = \<lparr>workDuration = Some 50, shortBreakDuration = None, longBreakDuration = None,
     longBreakInterval = None\<rparr>"

definition full_50 :: pomodoro_settings where
  "full_50 = \<lparr>workDuration = Some 50, shortBreakDuration = Some 5, longBreakDuration = Some 15,
     longBreakInterval = Some 4\<rparr>"

text \<open>
  A provider whose timer runs, and a notification sub-record with the inactivity alerts
  switched off and a threshold of 60 minutes.
\<close>

definition running :: provider where
  "running = empty_provider\<lparr>pomodoroTimer := Some (Num 1700000900000)\<rparr>"


text \<open>The two calls of \<open>addTask\<close> that create \<open>task_a\<close> and \<open>task_b\<close>.\<close>

definition call_a :: add_call where
  "call_a = \<lparr>call_id = ''PROJ-1'', call_notes = [], call_status = ''dev'',
     call_environment = ''dev'', call_files = [], call_now = 1700000000123\<rparr>"

definition call_b :: add_call where
  "call_b = \<lparr>call_id = ''PROJ-2'', call_notes = ''fix login'', call_status = ''code_review'',
     call_environment = ''uat'', call_files = [''src/a.ts''], call_now = 1700000060000\<rparr>"

section \<open>What each step leaves alone\<close>

lemma emit_fields [simp]:
  "view (emit e s) = view s" "tasks (emit e s) = tasks s"
  "pomodoroTimer (emit e s) = pomodoroTimer s" "lastActivityTime (emit e s) = lastActivityTime s"
  "isFocusMode (emit e s) = isFocusMode s" "settings (emit e s) = settings s"
  "globalState (emit e s) = globalState s" "config (emit e s) = config s"
  "trace (emit e s) = trace s @ [e]"
  by (simp_all add: emit_def)

lemma updateWebview_fields [simp]:
  "view (updateWebview s) = view s" "tasks (updateWebview s) = tasks s"
  "pomodoroTimer (updateWebview s) = pomodoroTimer s"
  "lastActivityTime (updateWebview s) = lastActivityTime s"
  "isFocusMode (updateWebview s) = isFocusMode s" "settings (updateWebview s) = settings s"
  "globalState (updateWebview s) = globalState s" "config (updateWebview s) = config s"
  by (simp_all add: updateWebview_def split: sum.splits)

lemma updateWebview_trace: "\<exists>ws. trace (updateWebview s) = trace s @ ws"
  by (simp add: updateWebview_def split: sum.splits)

lemma globalState_update_fields [simp]:
  "view (globalState_update s) = view s" "tasks (globalState_update s) = tasks s"
  "pomodoroTimer (globalState_update s) = pomodoroTimer s"
  "lastActivityTime (globalState_update s) = lastActivityTime s"
  "isFocusMode (globalState_update s) = isFocusMode s"
  "settings (globalState_update s) = settings s"
  "globalState (globalState_update s) = Some (json_tasks (tasks s))"
  "config (globalState_update s) = config s"
  "trace (globalState_update s) = trace s @ [GlobalStateUpdate (json_tasks (tasks s))]"
  by (simp_all add: globalState_update_def)

lemma config_update_fields [simp]:
  "view (config_update k v s) = view s" "tasks (config_update k v s) = tasks s"
  "pomodoroTimer (config_update k v s) = pomodoroTimer s"
  "lastActivityTime (config_update k v s) = lastActivityTime s"
  "isFocusMode (config_update k v s) = isFocusMode s"
  "settings (config_update k v s) = settings s"
  "globalState (config_update k v s) = globalState s"
  "config (config_update k v s) = (config s)(k \<mapsto> v)"
  "trace (config_update k v s) = trace s @ [ConfigUpdate k v]"
  by (simp_all add: config_update_def)

lemma startPomodoro_fields [simp]:
  "view (startPomodoro now s) = view s" "tasks (startPomodoro now s) = tasks s"
  "lastActivityTime (startPomodoro now s) = lastActivityTime s"
  "isFocusMode (startPomodoro now s) = isFocusMode s"
  "settings (startPomodoro now s) = settings s"
  "globalState (startPomodoro now s) = globalState s"
  "config (startPomodoro now s) = config s"
  by (simp_all add: startPomodoro_def Let_def)

lemma startPomodoro_timer:
  "pomodoroTimer (startPomodoro now s) =
     Some (case workDuration (pomodoro (settings s)) of None \<Rightarrow> NaN
           | Some d \<Rightarrow> Num (now + d * 60 * 1000))"
  by (simp add: startPomodoro_def Let_def)

lemma saveSettings_settings [simp]:
  "settings (saveSettings upd now s) = merge_settings (settings s) upd"
  by (simp add: saveSettings_def Let_def)

lemma saveSettings_timer:
  "pomodoroTimer (saveSettings upd now s) =
     (if p_pomodoro upd \<noteq> None \<and> pomodoroTimer s \<noteq> None
      then Some (case workDuration (pomodoro (merge_settings (settings s) upd)) of
                   None \<Rightarrow> NaN | Some d \<Rightarrow> Num (now + d * 60 * 1000))
      else pomodoroTimer s)"
  by (simp add: saveSettings_def Let_def startPomodoro_timer)


lemma saveSettings_lastActivityTime [simp]:
  "lastActivityTime (saveSettings upd t s) = lastActivityTime s"
  by (simp add: saveSettings_def Let_def)


lemma update_if_fields [simp]:
  "view (update_if b k v s) = view s" "tasks (update_if b k v s) = tasks s"
  "pomodoroTimer (update_if b k v s) = pomodoroTimer s"
  "lastActivityTime (update_if b k v s) = lastActivityTime s"
  "isFocusMode (update_if b k v s) = isFocusMode s"
  "settings (update_if b k v s) = settings s"
  "globalState (update_if b k v s) = globalState s"
  by (simp_all add: update_if_def)

section \<open>Deleting at position -1\<close>

lemma elems_splice_minus_one:
  "elems a \<noteq> [] \<Longrightarrow> elems (arr_splice1 a (- 1)) = butlast (elems a)"
  by (cases "elems a" rule: rev_cases) (simp_all add: arr_splice1_def splice_start_def)

text \<open>
  Claim C10. On every non-empty task sequence, \<open>_deleteTask\<close> with position -1 removes
  the last task: the sequence afterwards is the sequence without its last element, that
  shortened sequence is written to the store, and the call ends with the notification
  of success.
\<close>

theorem deleteTask_minus_one:
  assumes "list_tasks s \<noteq> []"
  shows "list_tasks (deleteTask (- 1) s) = butlast (list_tasks s)
       \<and> globalState (deleteTask (- 1) s) = Some (map (map_option json_task) (butlast (list_tasks s)))
       \<and> GlobalStateUpdate (map (map_option json_task) (butlast (list_tasks s)))
            \<in> set (trace (deleteTask (- 1) s))
       \<and> last (trace (deleteTask (- 1) s)) = InfoMessage ''Task deleted successfully!''"
proof -
  let ?s1 = "s\<lparr>tasks := arr_splice1 (tasks s) (- 1)\<rparr>"
  have e: "elems (tasks ?s1) = butlast (list_tasks s)"
    using assms by (simp add: list_tasks_def elems_splice_minus_one)
  obtain ws where ws:
    "trace (updateWebview (globalState_update ?s1)) = trace (globalState_update ?s1) @ ws"
    using updateWebview_trace by blast
  show ?thesis
    using e ws by (simp add: deleteTask_def Let_def list_tasks_def json_tasks_def)
qed

theorem deleteTask_minus_one_witness:
  "list_tasks two_tasks \<noteq> []
   \<and> list_tasks (deleteTask (- 1) two_tasks) = [Some task_a]
   \<and> globalState (deleteTask (- 1) two_tasks) = Some [Some (json_task task_a)]
   \<and> last (trace (deleteTask (- 1) two_tasks)) = InfoMessage ''Task deleted successfully!''"
proof -
  have h: "list_tasks two_tasks \<noteq> []"
    by (simp add: list_tasks_def two_tasks_def)
  have b: "butlast (list_tasks two_tasks) = [Some task_a]"
    by (simp add: list_tasks_def two_tasks_def)
  show ?thesis
    using deleteTask_minus_one [OF h] h b by simp
qed

section \<open>Positions outside the sequence\<close>

lemma elems_splice_past_end:
  "int (length (elems a)) \<le> i \<Longrightarrow> elems (arr_splice1 a i) = elems a"
  by (simp add: arr_splice1_def splice_start_def)

lemma elems_set_negative: "i < 0 \<Longrightarrow> elems (arr_set a i v) = elems a"
  by (simp add: arr_set_def)

lemma elems_set_inside:
  "0 \<le> i \<Longrightarrow> nat i < length (elems a) \<Longrightarrow> elems (arr_set a i v) = (elems a)[nat i := Some v]"
  by (simp add: arr_set_def)

text \<open>
  Claim C1 says that update and delete at a position outside the sequence fail with
  \<open>OutOfRange\<close> and change nothing. The code has no such failure. Deleting at -1 on two
  tasks changes the sequence and reports success; updating at position 3 of two tasks
  grows the sequence to four elements (a hole, then the partial record as a task),
  writes it to the store and reports success.
\<close>

theorem out_of_range_counterexample:
  "list_tasks (deleteTask (- 1) two_tasks) \<noteq> list_tasks two_tasks
   \<and> last (trace (deleteTask (- 1) two_tasks)) = InfoMessage ''Task deleted successfully!''
   \<and> list_tasks (updateTask 3 only_status two_tasks)
       = [Some task_a, Some task_b, None, Some only_status]
   \<and> globalState (updateTask 3 only_status two_tasks) \<noteq> globalState two_tasks
   \<and> last (trace (updateTask 3 only_status two_tasks)) = InfoMessage ''Task updated successfully!''"
  by (simp add: list_tasks_def deleteTask_def updateTask_def Let_def two_tasks_def
      empty_provider_def arr_splice1_def splice_start_def arr_get_def arr_set_def
      spread_def override_def empty_obj_def only_status_def)

text \<open>
  Claim C1 as amended. Neither operation has a failing outcome. Deleting at a position at
  or past the length leaves the task sequence as it is, and so does updating at a
  negative position; in both cases the unchanged sequence is still written to the store
  and the call ends with the notification of success.
\<close>

theorem out_of_range_unchanged:
  "(int (length (list_tasks s)) \<le> i \<longrightarrow>
      list_tasks (deleteTask i s) = list_tasks s
      \<and> globalState (deleteTask i s) = Some (json_tasks (tasks s))
      \<and> last (trace (deleteTask i s)) = InfoMessage ''Task deleted successfully!'')
   \<and> (j < 0 \<longrightarrow>
      list_tasks (updateTask j u s) = list_tasks s
      \<and> globalState (updateTask j u s) = Some (json_tasks (tasks s))
      \<and> last (trace (updateTask j u s)) = InfoMessage ''Task updated successfully!'')"
  by (simp add: list_tasks_def deleteTask_def updateTask_def Let_def json_tasks_def
      elems_splice_past_end elems_set_negative)

theorem out_of_range_unchanged_witness:
  "int (length (list_tasks two_tasks)) \<le> 2
   \<and> list_tasks (deleteTask 2 two_tasks) = [Some task_a, Some task_b]
   \<and> last (trace (deleteTask 2 two_tasks)) = InfoMessage ''Task deleted successfully!''
   \<and> (- 1 :: int) < 0
   \<and> list_tasks (updateTask (- 1) only_status two_tasks) = [Some task_a, Some task_b]
   \<and> last (trace (updateTask (- 1) only_status two_tasks)) = InfoMessage ''Task updated successfully!''"
proof -
  have l: "list_tasks two_tasks = [Some task_a, Some task_b]"
    by (simp add: list_tasks_def two_tasks_def)
  show ?thesis
    using out_of_range_unchanged [of two_tasks 2 "- 1" only_status] l by simp
qed

section \<open>What an update changes\<close>

text \<open>
  Claim C2 says that \<open>createdAt\<close> is never modified, even when the partial record
  supplies one. The spread takes every supplied property, \<open>createdAt\<close> included: after
  an update of the first of two tasks with a record that holds only a \<open>createdAt\<close>,
  the task's \<open>createdAt\<close> is the supplied string and no longer the original date.
\<close>

theorem updateTask_createdAt_counterexample:
  "map_option createdAt (list_tasks (updateTask 0 only_created two_tasks) ! 0)
     \<noteq> map_option createdAt (list_tasks two_tasks ! 0)
   \<and> map_option createdAt (list_tasks (updateTask 0 only_created two_tasks) ! 0)
     = Some (Some (StrVal ''2020-01-01T00:00:00.000Z''))
   \<and> map_option createdAt (list_tasks two_tasks ! 0) = Some (Some (DateObj (Date 1700000000123)))"
  by (simp add: list_tasks_def updateTask_def Let_def two_tasks_def
      empty_provider_def arr_get_def arr_set_def task_a_def new_task_def
      spread_def override_def empty_obj_def only_created_def)

text \<open>
  Claim C2 as amended. At a valid position that holds a task, the update replaces that
  task and no other element; in the new task every property that the partial record
  supplies has the supplied value, and every property that it does not supply is
  unchanged. So \<open>createdAt\<close> is unchanged when the partial record does not supply it,
  and is the supplied value when it does.
\<close>

theorem updateTask_frame:
  assumes "0 \<le> i" and "nat i < length (list_tasks s)" and "list_tasks s ! nat i = Some t"
  shows "list_tasks (updateTask i u s) = (list_tasks s)[nat i := Some (spread t u)]
     \<and> (jiraId u = None \<longrightarrow> jiraId (spread t u) = jiraId t)
     \<and> (notes_field u = None \<longrightarrow> notes_field (spread t u) = notes_field t)
     \<and> (modifiedFiles u = None \<longrightarrow> modifiedFiles (spread t u) = modifiedFiles t)
     \<and> (createdAt u = None \<longrightarrow> createdAt (spread t u) = createdAt t)
     \<and> (status u = None \<longrightarrow> status (spread t u) = status t)
     \<and> (environment u = None \<longrightarrow> environment (spread t u) = environment t)
     \<and> (\<forall>v. jiraId u = Some v \<longrightarrow> jiraId (spread t u) = Some v)
     \<and> (\<forall>v. notes_field u = Some v \<longrightarrow> notes_field (spread t u) = Some v)
     \<and> (\<forall>v. modifiedFiles u = Some v \<longrightarrow> modifiedFiles (spread t u) = Some v)
     \<and> (\<forall>v. createdAt u = Some v \<longrightarrow> createdAt (spread t u) = Some v)
     \<and> (\<forall>v. status u = Some v \<longrightarrow> status (spread t u) = Some v)
     \<and> (\<forall>v. environment u = Some v \<longrightarrow> environment (spread t u) = Some v)"
proof -
  have "list_tasks (updateTask i u s) = (list_tasks s)[nat i := Some (spread t u)]"
    using assms
    by (simp add: list_tasks_def updateTask_def Let_def elems_set_inside arr_get_def)
  then show ?thesis
    by (simp add: spread_def override_def)
qed

theorem updateTask_frame_witness:
  "(0::int) \<le> 1 \<and> nat 1 < length (list_tasks two_tasks)
   \<and> list_tasks two_tasks ! nat 1 = Some task_b
   \<and> list_tasks (updateTask 1 only_status two_tasks)
       = [Some task_a, Some (task_b\<lparr>status := Some ''deployed''\<rparr>)]"
proof -
  have l: "list_tasks two_tasks = [Some task_a, Some task_b]"
    by (simp add: list_tasks_def two_tasks_def)
  have h: "(0::int) \<le> 1" "nat 1 < length (list_tasks two_tasks)"
    "list_tasks two_tasks ! nat 1 = Some task_b"
    by (simp_all add: l)
  have sp: "spread task_b only_status = task_b\<lparr>status := Some ''deployed''\<rparr>"
    by (simp add: spread_def override_def only_status_def empty_obj_def task_b_def new_task_def)
  show ?thesis
    using updateTask_frame [OF h, of only_status] h l sp by simp
qed

section \<open>Merging settings\<close>

text \<open>
  Claim C3 says that an update with \<open>{pomodoro: {workDuration: 50}}\<close> keeps the other
  Pomodoro sub-fields. The spread is shallow: the supplied sub-record replaces the
  current one, so on the default settings the short break duration, 5 before, is absent
  afterwards.
\<close>

theorem saveSettings_pomodoro_counterexample:
  "shortBreakDuration (pomodoro (settings empty_provider)) = Some 5
   \<and> shortBreakDuration (pomodoro (settings
        (saveSettings (no_settings\<lparr>p_pomodoro := Some work_50\<rparr>) 0 empty_provider))) = None"
  by (simp add: merge_settings_def no_settings_def work_50_def empty_provider_def loadSettings_def
      cfg_pomodoro_def num_or_def)

text \<open>
  Claim C3 as amended. The update merges the supplied top-level fields into the current
  record: a top-level field that the partial record does not supply keeps its value, and
  one that it supplies, a sub-record included, is replaced as a whole by the supplied
  value. So an update that supplies only the Pomodoro sub-record \<open>P\<close> yields the
  settings with \<open>pomodoro = P\<close> and every other top-level field as before.
\<close>

theorem saveSettings_merge:
  "(p_taskStatuses upd = None \<longrightarrow>
      taskStatuses (settings (saveSettings upd now s)) = taskStatuses (settings s))
   \<and> (p_environments upd = None \<longrightarrow>
      environments (settings (saveSettings upd now s)) = environments (settings s))
   \<and> (p_pomodoro upd = None \<longrightarrow>
      pomodoro (settings (saveSettings upd now s)) = pomodoro (settings s))
   \<and> (p_focusMode upd = None \<longrightarrow>
      focusMode (settings (saveSettings upd now s)) = focusMode (settings s))
   \<and> (p_notifications upd = None \<longrightarrow>
      notifications (settings (saveSettings upd now s)) = notifications (settings s))
   \<and> (\<forall>v. p_taskStatuses upd = Some v \<longrightarrow> taskStatuses (settings (saveSettings upd now s)) = v)
   \<and> (\<forall>v. p_environments upd = Some v \<longrightarrow> environments (settings (saveSettings upd now s)) = v)
   \<and> (\<forall>v. p_pomodoro upd = Some v \<longrightarrow> pomodoro (settings (saveSettings upd now s)) = v)
   \<and> (\<forall>v. p_focusMode upd = Some v \<longrightarrow> focusMode (settings (saveSettings upd now s)) = v)
   \<and> (\<forall>v. p_notifications upd = Some v \<longrightarrow> notifications (settings (saveSettings upd now s)) = v)"
  by (simp add: merge_settings_def)

theorem saveSettings_merge_witness:
  "settings (saveSettings (no_settings\<lparr>p_pomodoro := Some full_50\<rparr>) 0 empty_provider)
     = (settings empty_provider)\<lparr>pomodoro := full_50\<rparr>
   \<and> workDuration (pomodoro (settings
        (saveSettings (no_settings\<lparr>p_pomodoro := Some full_50\<rparr>) 0 empty_provider))) = Some 50
   \<and> shortBreakDuration (pomodoro (settings
        (saveSettings (no_settings\<lparr>p_pomodoro := Some full_50\<rparr>) 0 empty_provider)))
       = shortBreakDuration (pomodoro (settings empty_provider))"
proof -
  let ?upd = "no_settings\<lparr>p_pomodoro := Some full_50\<rparr>"
  have u: "p_taskStatuses ?upd = None" "p_environments ?upd = None" "p_focusMode ?upd = None"
    "p_notifications ?upd = None" "p_pomodoro ?upd = Some full_50"
    by (simp_all add: no_settings_def)
  have d: "shortBreakDuration (pomodoro (settings empty_provider)) = Some 5"
    by (simp add: empty_provider_def loadSettings_def cfg_pomodoro_def num_or_def)
  have "taskStatuses (settings (saveSettings ?upd 0 empty_provider)) = taskStatuses (settings empty_provider)"
    "environments (settings (saveSettings ?upd 0 empty_provider)) = environments (settings empty_provider)"
    "focusMode (settings (saveSettings ?upd 0 empty_provider)) = focusMode (settings empty_provider)"
    "notifications (settings (saveSettings ?upd 0 empty_provider)) = notifications (settings empty_provider)"
    "pomodoro (settings (saveSettings ?upd 0 empty_provider)) = full_50"
    using saveSettings_merge [of ?upd 0 empty_provider] u by simp_all
  then show ?thesis using d
    by (simp add: full_50_def alex_settings.equality)
qed

section \<open>Settings and the running timer\<close>

text \<open>
  Claim C8. When a settings update supplies the Pomodoro sub-record while the work timer
  runs, the timer is restarted with the new work duration: its end time is the current
  time plus the new duration, whatever end time the running session had. When no timer
  runs, none is started.
\<close>

theorem saveSettings_restarts_timer:
  "(\<forall>P d. p_pomodoro upd = Some P \<and> workDuration P = Some d \<and> pomodoroTimer s \<noteq> None \<longrightarrow>
      pomodoroTimer (saveSettings upd now s) = Some (Num (now + d * 60 * 1000)))
   \<and> (pomodoroTimer s = None \<longrightarrow> pomodoroTimer (saveSettings upd now s) = None)"
  by (auto simp add: saveSettings_timer merge_settings_def)

theorem saveSettings_restarts_timer_witness:
  "pomodoroTimer running = Some (Num 1700000900000)
   \<and> pomodoroTimer (saveSettings (no_settings\<lparr>p_pomodoro := Some full_50\<rparr>) 1700000300000 running)
       = Some (Num 1700003300000)
   \<and> pomodoroTimer empty_provider = None
   \<and> pomodoroTimer (saveSettings (no_settings\<lparr>p_pomodoro := Some full_50\<rparr>) 1700000300000 empty_provider)
       = None"
proof -
  let ?upd = "no_settings\<lparr>p_pomodoro := Some full_50\<rparr>"
  have u: "p_pomodoro ?upd = Some full_50" "workDuration full_50 = Some 50"
    by (simp_all add: no_settings_def full_50_def)
  have r: "pomodoroTimer running = Some (Num 1700000900000)" "pomodoroTimer empty_provider = None"
    by (simp_all add: running_def empty_provider_def)
  show ?thesis
    using saveSettings_restarts_timer [of ?upd running 1700000300000]
      saveSettings_restarts_timer [of ?upd empty_provider 1700000300000] u r
    by simp
qed

section \<open>The watchdog and the settings\<close>



section \<open>Toggling focus mode\<close>

lemma focus_events_append [simp]:
  "focus_events (es @ fs) = focus_events es @ focus_events fs"
  by (induction es rule: focus_events.induct) simp_all

lemma update_if_focus_events [simp]:
  "focus_events (trace (update_if b k v s)) = focus_events (trace s)"
  by (simp add: update_if_def)

lemma toggleFocusMode_isFocusMode [simp]:
  "isFocusMode (toggleFocusMode s) = (\<not> isFocusMode s)"
  by (simp add: toggleFocusMode_def Let_def)

lemma toggleFocusMode_view [simp]: "view (toggleFocusMode s) = view s"
  by (simp add: toggleFocusMode_def Let_def)




section \<open>Adding tasks\<close>

lemma addTask_call_tasks:
  "list_tasks (snd (addTask_call c s)) = list_tasks s @ [Some (task_of_call c)]"
  by (simp add: addTask_call_def addTask_def Let_def list_tasks_def arr_push_def task_of_call_def)

lemma addTasks_tasks:
  "list_tasks (addTasks cs s) = list_tasks s @ map (\<lambda>c. Some (task_of_call c)) cs"
  by (induction cs arbitrary: s) (simp_all add: addTask_call_tasks)

lemma created_times_append [simp]:
  "created_times (es @ fs) = created_times es @ created_times fs"
  by (induction es) (simp_all split: option.splits created.splits date.splits)

lemma created_times_calls:
  "created_times (map (\<lambda>c. Some (task_of_call c)) cs) = map call_now cs"
  by (induction cs) (simp_all add: task_of_call_def new_task_def)

text \<open>
  Claim C6 says that each call returns the created record. \<open>_addTask\<close> has no
  \<open>return\<close>: the call that creates \<open>task_a\<close> appends it and resolves with
  \<open>undefined\<close>, not with the task.
\<close>

theorem addTask_returns_counterexample:
  "list_tasks (snd (addTask_call call_a empty_provider)) = [Some task_a]
   \<and> fst (addTask_call call_a empty_provider) \<noteq> Some task_a"
  by (simp add: addTask_call_tasks task_of_call_def call_a_def task_a_def list_tasks_def
      empty_provider_def arr_empty_def arr_push_def addTask_call_def addTask_def Let_def)

text \<open>
  Claim C6 as amended. Each call builds a task whose \<open>createdAt\<close> is the current time,
  appends it to the end of the sequence, ends with the notification of success, and
  returns no value. After any sequence of calls the task sequence is the earlier one
  followed by the created tasks in call order, and the \<open>createdAt\<close> times of the new
  tasks are the clock readings of the calls; so they are non-decreasing whenever the
  clock readings are (after those of the tasks already there). No call has a failing
  outcome, whatever the strings and the file list are.
\<close>

theorem addTasks_in_call_order:
  "fst (addTask_call c s) = None
   \<and> list_tasks (snd (addTask_call c s)) = list_tasks s @ [Some (task_of_call c)]
   \<and> createdAt (task_of_call c) = Some (DateObj (Date (call_now c)))
   \<and> last (trace (snd (addTask_call c s)))
       = InfoMessage (''Task '' @ call_id c @ '' added successfully!'')
   \<and> list_tasks (addTasks cs s) = list_tasks s @ map (\<lambda>c. Some (task_of_call c)) cs
   \<and> created_times (list_tasks (addTasks cs s)) = created_times (list_tasks s) @ map call_now cs
   \<and> (sorted (created_times (list_tasks s) @ map call_now cs) \<longrightarrow>
        sorted (created_times (list_tasks (addTasks cs s))))"
  by (simp add: addTask_call_tasks addTasks_tasks created_times_calls)
    (simp add: addTask_call_def addTask_def Let_def task_of_call_def new_task_def)

theorem addTasks_in_call_order_witness:
  "sorted (created_times (list_tasks empty_provider) @ map call_now [call_a, call_b])
   \<and> list_tasks (addTasks [call_a, call_b] empty_provider) = [Some task_a, Some task_b]
   \<and> created_times (list_tasks (addTasks [call_a, call_b] empty_provider))
       = [1700000000123, 1700000060000]
   \<and> sorted (created_times (list_tasks (addTasks [call_a, call_b] empty_provider)))"
proof -
  have l: "list_tasks empty_provider = []"
    by (simp add: list_tasks_def empty_provider_def arr_empty_def)
  have t: "task_of_call call_a = task_a" "task_of_call call_b = task_b"
    by (simp_all add: task_of_call_def call_a_def call_b_def task_a_def task_b_def)
  have n: "call_now call_a = 1700000000123" "call_now call_b = 1700000060000"
    by (simp_all add: call_a_def call_b_def)
  show ?thesis
    using addTasks_in_call_order [of call_a empty_provider "[call_a, call_b]"] l t n
    by (simp del: addTasks.simps add: task_a_def task_b_def new_task_def)
qed

section \<open>Digits\<close>

lemma is_digit_digit_char: "d < 10 \<Longrightarrow> is_digit (digit_char d)"
  by (simp add: is_digit_def digit_char_def)

lemma digit_val_digit_char: "d < 10 \<Longrightarrow> digit_val (digit_char d) = d"
  by (simp add: digit_val_def digit_char_def)

lemma string_of_nat_digits: "list_all is_digit (string_of_nat n)"
proof (induction n rule: string_of_nat.induct)
  case (1 n)
  show ?case
  proof (cases "n < 10")
    case True
    then show ?thesis by (simp add: string_of_nat.simps [of n] is_digit_digit_char)
  next
    case False
    then show ?thesis
      using "1.IH" by (simp add: string_of_nat.simps [of n] is_digit_digit_char)
  qed
qed

lemma string_of_nat_length:
  "length (string_of_nat n) = (if n < 10 then 1 else Suc (length (string_of_nat (n div 10))))"
  by (simp add: string_of_nat.simps [of n])

lemma string_of_nat_length_pos: "0 < length (string_of_nat n)"
  by (simp add: string_of_nat_length [of n])

lemma length_two_digits: "length (string_of_nat n) = 2 \<longleftrightarrow> 10 \<le> n \<and> n < 100"
proof (cases "n < 10")
  case True
  then show ?thesis by (simp add: string_of_nat_length [of n])
next
  case False
  show ?thesis
  proof (cases "n < 100")
    case True
    then have "n div 10 < 10" by simp
    then show ?thesis using False True
      by (simp add: string_of_nat_length [of n] string_of_nat_length [of "n div 10"])
  next
    case False
    then have "\<not> n div 10 < 10" by simp
    then show ?thesis using False string_of_nat_length_pos [of "n div 10 div 10"]
      by (simp add: string_of_nat_length [of n] string_of_nat_length [of "n div 10"])
  qed
qed

lemma length_padStart: "length (padStart w c s) = max w (length s)"
  by (simp add: padStart_def)

lemma padStart_digits:
  "list_all is_digit s \<Longrightarrow> list_all is_digit (padStart w CHR ''0'' s)"
  by (auto simp: padStart_def is_digit_def list_all_iff)

lemma seconds_two_digits:
  assumes "n < 60"
  shows "length (padStart 2 CHR ''0'' (string_of_nat n)) = 2"
proof (cases "n < 10")
  case True
  then show ?thesis by (simp add: length_padStart string_of_nat_length [of n])
next
  case False
  then have "length (string_of_nat n) = 2" using assms by (simp add: length_two_digits)
  then show ?thesis by (simp add: length_padStart)
qed

lemma is_mm_ss_length: "is_mm_ss str \<Longrightarrow> length str = 5"
  by (auto simp: is_mm_ss_def split: list.splits)

lemma is_mm_ss_parts:
  assumes "list_all is_digit ms" and "list_all is_digit ss" and "length ss = 2"
  shows "is_mm_ss (ms @ '':'' @ ss) \<longleftrightarrow> length ms = 2"
proof
  assume "is_mm_ss (ms @ '':'' @ ss)"
  then have "length (ms @ '':'' @ ss) = 5" by (rule is_mm_ss_length)
  then show "length ms = 2" using assms(3) by simp
next
  assume "length ms = 2"
  then obtain a b where ms: "ms = [a, b]"
    by (auto simp: length_Suc_conv numeral_2_eq_2)
  obtain c d where ss: "ss = [c, d]"
    using assms(3) by (auto simp: length_Suc_conv numeral_2_eq_2)
  show "is_mm_ss (ms @ '':'' @ ss)"
    using assms(1,2) unfolding ms ss by (simp add: is_mm_ss_def)
qed

lemma tick_text_pos:
  assumes "0 < r"
  shows "tick_text (Num r) =
     string_of_nat (nat (r div 60000)) @ '':''
     @ padStart 2 CHR ''0'' (string_of_nat (nat (r mod 60000 div 1000)))"
proof -
  have "0 \<le> r div 60000" using assms by simp
  moreover have "0 \<le> r mod 60000 div 1000" by simp
  ultimately show ?thesis
    by (simp add: tick_text_def string_of_jsnum_def string_of_int_def Let_def)
qed

lemma tick_text_shape:
  assumes "0 < r"
  shows "is_mm_ss (tick_text (Num r)) \<longleftrightarrow> 600000 \<le> r \<and> r < 6000000"
proof -
  let ?m = "nat (r div 60000)" and ?s = "nat (r mod 60000 div 1000)"
  have "r mod 60000 < 60000" by simp
  then have "r mod 60000 div 1000 < 60" by simp
  then have s60: "?s < 60" by simp
  have "is_mm_ss (tick_text (Num r)) \<longleftrightarrow> length (string_of_nat ?m) = 2"
    unfolding tick_text_pos [OF assms]
    by (intro is_mm_ss_parts string_of_nat_digits padStart_digits seconds_two_digits s60)
  also have "\<dots> \<longleftrightarrow> 10 \<le> ?m \<and> ?m < 100" by (rule length_two_digits)
  also have "\<dots> \<longleftrightarrow> 600000 \<le> r \<and> r < 6000000" using assms by auto
  finally show ?thesis .
qed

section \<open>A run of the timer\<close>

lemma timer_events_append [simp]:
  "timer_events (es @ fs) = timer_events es @ timer_events fs"
  by (induction es rule: timer_events.induct) simp_all

lemma info_events_append [simp]:
  "info_events (es @ fs) = info_events es @ info_events fs"
  by (induction es rule: info_events.induct) simp_all

lemma pomodoro_ticks_idle: "pomodoroTimer s = None \<Longrightarrow> pomodoro_ticks ts s = s"
  by (induction ts) (simp_all add: pomodoro_tick_def)

lemma pomodoro_tick_running:
  "pomodoroTimer s = Some (Num e) \<Longrightarrow> view s \<Longrightarrow> t < e \<Longrightarrow>
     pomodoro_tick t s = emit (PostUpdateTimer (tick_text (Num (e - t)))) s"
  by (simp add: pomodoro_tick_def remaining_time_def Let_def)

lemma pomodoro_tick_last:
  "pomodoroTimer s = Some (Num e) \<Longrightarrow> view s \<Longrightarrow> e \<le> t \<Longrightarrow>
     pomodoro_tick t s =
       emit (PostUpdateTimer ''00:00'')
         ((emit (InfoMessage ''Pomodoro session complete! Time for a break.'') s)
            \<lparr>pomodoroTimer := None\<rparr>)"
  by (simp add: pomodoro_tick_def remaining_time_def Let_def)

lemma pomodoro_ticks_running:
  "pomodoroTimer s = Some (Num e) \<Longrightarrow> view s \<Longrightarrow> \<forall>t \<in> set ts. t < e \<Longrightarrow>
     pomodoro_ticks ts s =
       s\<lparr>trace := trace s @ map (\<lambda>t. PostUpdateTimer (tick_text (Num (e - t)))) ts\<rparr>"
proof (induction ts arbitrary: s)
  case Nil
  then show ?case by simp
next
  case (Cons t ts)
  have 1: "pomodoro_tick t s = emit (PostUpdateTimer (tick_text (Num (e - t)))) s"
    using Cons.prems by (simp add: pomodoro_tick_running)
  have "pomodoro_ticks ts (pomodoro_tick t s) =
      (pomodoro_tick t s)\<lparr>trace := trace (pomodoro_tick t s)
         @ map (\<lambda>t. PostUpdateTimer (tick_text (Num (e - t)))) ts\<rparr>"
    using Cons.prems by (intro Cons.IH) (simp_all add: 1)
  then show ?case by (simp add: 1 emit_def)
qed

lemma pomodoro_ticks_append:
  "pomodoro_ticks (ts @ us) s = pomodoro_ticks us (pomodoro_ticks ts s)"
  by (induction ts arbitrary: s) simp_all

lemma timer_events_posts [simp]:
  "timer_events (map (\<lambda>t. PostUpdateTimer (f t)) ts) = map f ts"
  by (induction ts) simp_all

lemma info_events_posts [simp]:
  "info_events (map (\<lambda>t. PostUpdateTimer (f t)) ts) = []"
  by (induction ts) simp_all

text \<open>
  Claim C5 says that every tick emits the remaining time as \<open>mm:ss\<close>. The minutes are
  not padded: with the default 25 minutes, the tick at 15 minutes and 1 second after the
  start emits \<open>9:59\<close>, which does not have the shape \<open>mm:ss\<close>.
\<close>

theorem timer_format_counterexample:
  "timer_events (trace (pomodoro_tick 1700000901000 (startPomodoro 1700000000000 empty_provider)))
     = [''25:00'', ''9:59'']
   \<and> \<not> is_mm_ss ''9:59''"
  by code_simp

text \<open>
  Claim C5 as amended. With a view attached and a work duration of \<open>d\<close> minutes, the
  start emits \<open>d\<close> followed by \<open>:00\<close> (\<open>25:00\<close> for 25). Every tick before the end
  time emits the remaining time as the minutes in decimal without padding, a colon, and
  the seconds padded to two digits, which has the shape \<open>mm:ss\<close> exactly when the
  minutes have two digits. The first tick at or after the end time shows the completion
  notification, emits \<open>00:00\<close> and leaves the timer idle; the notification is shown
  exactly once, and the ticks after it emit nothing.
\<close>

theorem pomodoro_run:
  assumes "view s" and "workDuration (pomodoro (settings s)) = Some d"
    and "\<forall>t \<in> set before. t < now + d * 60 * 1000" and "now + d * 60 * 1000 \<le> t_end"
  shows "timer_events (trace (pomodoro_ticks (before @ t_end # after) (startPomodoro now s)))
           = timer_events (trace s) @ [string_of_int d @ '':00'']
             @ map (\<lambda>t. tick_text (Num (now + d * 60 * 1000 - t))) before @ [''00:00'']
       \<and> info_events (trace (pomodoro_ticks (before @ t_end # after) (startPomodoro now s)))
           = info_events (trace s) @ [''Pomodoro session complete! Time for a break.'']
       \<and> pomodoroTimer (pomodoro_ticks (before @ t_end # after) (startPomodoro now s)) = None
       \<and> (\<forall>t \<in> set before.
            tick_text (Num (now + d * 60 * 1000 - t)) =
              string_of_nat (nat ((now + d * 60 * 1000 - t) div 60000)) @ '':''
              @ padStart 2 CHR ''0'' (string_of_nat (nat ((now + d * 60 * 1000 - t) mod 60000 div 1000)))
            \<and> (is_mm_ss (tick_text (Num (now + d * 60 * 1000 - t)))
                 \<longleftrightarrow> 600000 \<le> now + d * 60 * 1000 - t \<and> now + d * 60 * 1000 - t < 6000000))"
proof -
  let ?e = "now + d * 60 * 1000"
  let ?s0 = "startPomodoro now s"
  have s0: "pomodoroTimer ?s0 = Some (Num ?e)" "view ?s0"
    "trace ?s0 = trace s @ [PostUpdateTimer (string_of_int d @ '':00'')]"
    using assms(1,2) by (simp_all add: startPomodoro_def Let_def duration_text_def)
  let ?s1 = "pomodoro_ticks before ?s0"
  have s1: "?s1 = ?s0\<lparr>trace := trace ?s0 @ map (\<lambda>t. PostUpdateTimer (tick_text (Num (?e - t)))) before\<rparr>"
    using s0 assms(3) by (intro pomodoro_ticks_running) simp_all
  then have s1': "pomodoroTimer ?s1 = Some (Num ?e)" "view ?s1"
    using s0 by simp_all
  let ?s2 = "pomodoro_tick t_end ?s1"
  have s2: "?s2 = emit (PostUpdateTimer ''00:00'')
         ((emit (InfoMessage ''Pomodoro session complete! Time for a break.'') ?s1)
            \<lparr>pomodoroTimer := None\<rparr>)"
    using s1' assms(4) by (intro pomodoro_tick_last) simp_all
  have idle: "pomodoroTimer ?s2 = None" by (simp add: s2)
  have "pomodoro_ticks (before @ t_end # after) ?s0 = pomodoro_ticks after ?s2"
    by (simp add: pomodoro_ticks_append)
  also have "\<dots> = ?s2" using idle by (rule pomodoro_ticks_idle)
  finally have fin: "pomodoro_ticks (before @ t_end # after) ?s0 = ?s2" .
  have tr: "trace ?s2 = trace s @ [PostUpdateTimer (string_of_int d @ '':00'')]
      @ map (\<lambda>t. PostUpdateTimer (tick_text (Num (?e - t)))) before
      @ [InfoMessage ''Pomodoro session complete! Time for a break.'', PostUpdateTimer ''00:00'']"
    unfolding s2 by (simp add: s1 s0)
  have shape: "tick_text (Num (?e - t)) =
              string_of_nat (nat ((?e - t) div 60000)) @ '':''
              @ padStart 2 CHR ''0'' (string_of_nat (nat ((?e - t) mod 60000 div 1000)))
            \<and> (is_mm_ss (tick_text (Num (?e - t))) \<longleftrightarrow> 600000 \<le> ?e - t \<and> ?e - t < 6000000)"
    if "t \<in> set before" for t
  proof -
    have "0 < ?e - t" using that assms(3) by simp
    then show ?thesis using tick_text_pos tick_text_shape by blast
  qed
  have run: "timer_events (trace (pomodoro_ticks (before @ t_end # after) ?s0))
           = timer_events (trace s) @ [string_of_int d @ '':00'']
             @ map (\<lambda>t. tick_text (Num (?e - t))) before @ [''00:00'']
       \<and> info_events (trace (pomodoro_ticks (before @ t_end # after) ?s0))
           = info_events (trace s) @ [''Pomodoro session complete! Time for a break.'']
       \<and> pomodoroTimer (pomodoro_ticks (before @ t_end # after) ?s0) = None"
    unfolding fin using idle by (simp add: tr)
  from run shape show ?thesis by blast
qed

theorem pomodoro_run_witness:
  "view empty_provider \<and> workDuration (pomodoro (settings empty_provider)) = Some 25
   \<and> list_all (\<lambda>t. t < 1700000000000 + 25 * 60 * 1000)
        [1700000001000, 1700000901000, 1700001499000 :: int]
   \<and> 1700000000000 + 25 * 60 * 1000 \<le> (1700001500000 :: int)
   \<and> timer_events (trace (pomodoro_ticks
          ([1700000001000, 1700000901000, 1700001499000] @ 1700001500000 # [1700001501000])
          (startPomodoro 1700000000000 empty_provider)))
       = [''25:00'', ''24:59'', ''9:59'', ''0:01'', ''00:00'']
   \<and> info_events (trace (pomodoro_ticks
          ([1700000001000, 1700000901000, 1700001499000] @ 1700001500000 # [1700001501000])
          (startPomodoro 1700000000000 empty_provider)))
       = [''Pomodoro session complete! Time for a break.'']
   \<and> pomodoroTimer (pomodoro_ticks
          ([1700000001000, 1700000901000, 1700001499000] @ 1700001500000 # [1700001501000])
          (startPomodoro 1700000000000 empty_provider)) = None"
proof -
  have h: "view empty_provider" "workDuration (pomodoro (settings empty_provider)) = Some 25"
    "\<forall>t \<in> set [1700000001000, 1700000901000, 1700001499000 :: int]. t < 1700000000000 + 25 * 60 * 1000"
    "1700000000000 + 25 * 60 * 1000 \<le> (1700001500000 :: int)"
    by (simp_all add: empty_provider_def loadSettings_def cfg_pomodoro_def num_or_def)
  have t0: "trace empty_provider = []" by (simp add: empty_provider_def)
  have d: "string_of_int 25 = ''25''" by code_simp
  have t1: "tick_text (Num 1499000) = ''24:59''" by code_simp
  have t2: "tick_text (Num 599000) = ''9:59''" by code_simp
  have t3: "tick_text (Num 1000) = ''0:01''" by code_simp
  show ?thesis
    using pomodoro_run [OF h, of "[1700001501000]"] h(1,2) t0 d t1 t2 t3
    by (simp del: pomodoro_ticks.simps)
qed

section \<open>The calendar\<close>

text \<open>
  Each year begins \<open>DaysInYear\<close> days after the one before; so the year found for a
  day holds that day, and the day within the year splits into a month and a day of the
  month that lie in their ranges.
\<close>

lemma div_succ:
  fixes a k :: int
  assumes k: "0 < k"
  shows "(a + 1) div k = a div k + (if (a + 1) mod k = 0 then 1 else 0)"
proof -
  define q where "q = a div k"
  define r where "r = a mod k"
  have a: "a = k * q + r" by (simp add: q_def r_def)
  have r: "0 \<le> r" "r < k" using k by (simp_all add: r_def)
  show ?thesis
  proof (cases "r + 1 = k")
    case True
    then have e: "a + 1 = k * (q + 1) + 0" using a by (simp add: algebra_simps)
    have "(a + 1) div k = q + 1" using e k by (intro int_div_pos_eq[where r = 0]) auto
    moreover have "(a + 1) mod k = 0" using e k by (intro int_mod_pos_eq[where q = "q + 1"]) auto
    ultimately show ?thesis by (simp add: q_def)
  next
    case False
    then have lt: "r + 1 < k" using r by simp
    have e: "a + 1 = k * q + (r + 1)" using a by simp
    have "(a + 1) div k = q" using e r lt by (intro int_div_pos_eq[where r = "r + 1"]) auto
    moreover have "(a + 1) mod k = r + 1" using e r lt by (intro int_mod_pos_eq[where q = q]) auto
    ultimately show ?thesis using r by (simp add: q_def)
  qed
qed

lemma mod_shift: "(a - c * k) mod k = a mod k" for a c k :: int
  by (metis mod_diff_right_eq mod_mult_self2_is_0 diff_zero)

lemma year_step_4: "(y + 1 - 1969) div 4 = (y - 1969) div 4 + (if y mod 4 = 0 then 1 else 0)" for y :: int
proof -
  have "(y - 1968) mod 4 = y mod 4" using mod_shift[of y 492 4] by simp
  then show ?thesis using div_succ[of 4 "y - 1969"] by (simp add: algebra_simps)
qed

lemma year_step_100: "(y + 1 - 1901) div 100 = (y - 1901) div 100 + (if y mod 100 = 0 then 1 else 0)" for y :: int
proof -
  have "(y - 1900) mod 100 = y mod 100" using mod_shift[of y 19 100] by simp
  then show ?thesis using div_succ[of 100 "y - 1901"] by (simp add: algebra_simps)
qed

lemma year_step_400: "(y + 1 - 1601) div 400 = (y - 1601) div 400 + (if y mod 400 = 0 then 1 else 0)" for y :: int
proof -
  have "(y - 1600) mod 400 = y mod 400" using mod_shift[of y 4 400] by simp
  then show ?thesis using div_succ[of 400 "y - 1601"] by (simp add: algebra_simps)
qed

lemma mod_400_100: "y mod 400 = 0 \<Longrightarrow> y mod 100 = 0" for y :: int
proof -
  assume a: "y mod 400 = 0"
  have "y mod 400 mod 100 = y mod 100" by (rule mod_mod_cancel) simp
  with a show ?thesis by simp
qed

lemma mod_100_4: "y mod 100 = 0 \<Longrightarrow> y mod 4 = 0" for y :: int
proof -
  assume a: "y mod 100 = 0"
  have "y mod 100 mod 4 = y mod 4" by (rule mod_mod_cancel) simp
  with a show ?thesis by simp
qed

lemma DayFromYear_Suc: "DayFromYear (y + 1) = DayFromYear y + DaysInYear y"
proof -
  have "DayFromYear (y + 1) = 365 * (y - 1970) + 365 + (y + 1 - 1969) div 4
      - (y + 1 - 1901) div 100 + (y + 1 - 1601) div 400"
    unfolding DayFromYear_def by (simp add: algebra_simps)
  also have "\<dots> = DayFromYear y + 365 + (if y mod 4 = 0 then 1 else 0)
      - (if y mod 100 = 0 then 1 else 0) + (if y mod 400 = 0 then 1 else 0)"
    unfolding year_step_4 year_step_100 year_step_400 DayFromYear_def by simp
  also have "\<dots> = DayFromYear y + DaysInYear y"
    using mod_400_100[of y] mod_100_4[of y] unfolding DaysInYear_def InLeapYear_def by auto
  finally show ?thesis .
qed

lemma DaysInYear_leap: "DaysInYear y = 365 + leap_days y"
  by (simp add: DaysInYear_def leap_days_def)

lemma DayFromYear_less_add: "0 < k \<Longrightarrow> DayFromYear y < DayFromYear (y + int k)"
proof (induction k)
  case 0
  then show ?case by simp
next
  case (Suc k)
  have step: "DayFromYear (y + int k) < DayFromYear (y + int k + 1)"
    unfolding DayFromYear_Suc by (simp add: DaysInYear_def)
  show ?case
  proof (cases "k = 0")
    case True
    then show ?thesis using step by simp
  next
    case False
    then have "DayFromYear y < DayFromYear (y + int k)" using Suc.IH by simp
    also note step
    also have "y + int k + 1 = y + int (Suc k)" by simp
    finally show ?thesis .
  qed
qed

lemma DayFromYear_strict_mono: "y < y' \<Longrightarrow> DayFromYear y < DayFromYear y'"
  using DayFromYear_less_add [of "nat (y' - y)" y] by simp

lemma year_down_le: "DayFromYear (year_down n y) \<le> n"
proof (induction n y rule: year_down.induct)
  case (1 n y)
  then show ?case by (simp add: year_down.simps [of n y])
qed

lemma year_up_le: "DayFromYear y \<le> n \<Longrightarrow> DayFromYear (year_up n y) \<le> n"
proof (induction n y rule: year_up.induct)
  case (1 n y)
  then show ?case by (simp add: year_up.simps [of n y])
qed

lemma year_up_gt: "n < DayFromYear (year_up n y + 1)"
proof (induction n y rule: year_up.induct)
  case (1 n y)
  then show ?case by (simp add: year_up.simps [of n y])
qed

lemma YearFromDay_bounds:
  "DayFromYear (YearFromDay n) \<le> n" "n < DayFromYear (YearFromDay n + 1)"
  by (simp_all add: YearFromDay_def year_up_le year_down_le year_up_gt)

lemma day_within_year:
  "0 \<le> n - DayFromYear (YearFromDay n)"
  "n - DayFromYear (YearFromDay n) < 365 + leap_days (YearFromDay n)"
  using YearFromDay_bounds [of n] by (simp_all add: DayFromYear_Suc DaysInYear_leap)

lemma leap_days_range: "leap_days y = 0 \<or> leap_days y = 1"
  by (simp add: leap_days_def)

lemma month_of_range:
  assumes "l = 0 \<or> l = 1" and "0 \<le> d" and "d < 365 + l"
  shows "0 \<le> month_of l d" "month_of l d \<le> 11"
    "1 \<le> d - month_start l (month_of l d) + 1" "d - month_start l (month_of l d) + 1 \<le> 31"
  using assms by (auto simp: month_of_def month_start_def)

lemma YearFromDay_range:
  assumes "- 100000000 \<le> n" and "n \<le> 100000000"
  shows "- 999999 \<le> YearFromDay n" "YearFromDay n \<le> 999999"
proof -
  have "DayFromYear (YearFromDay n) < DayFromYear 1000000"
    using YearFromDay_bounds(1) [of n] assms(2) by (simp add: DayFromYear_def)
  then have "\<not> 1000000 \<le> YearFromDay n"
    using DayFromYear_strict_mono [of 1000000 "YearFromDay n"] by (cases "YearFromDay n = 1000000") auto
  then show "YearFromDay n \<le> 999999" by simp
  have "DayFromYear (- 999999) < DayFromYear (YearFromDay n + 1)"
    using YearFromDay_bounds(2) [of n] assms(1) by (simp add: DayFromYear_def)
  then have "\<not> YearFromDay n + 1 \<le> - 999999"
    using DayFromYear_strict_mono [of "YearFromDay n + 1" "- 999999"]
    by (cases "YearFromDay n + 1 = - 999999") auto
  then show "- 999999 \<le> YearFromDay n" by simp
qed

section \<open>Times of day and the fields of the format\<close>

lemma time_parts:
  "MakeDate (Day t) (MakeTime (HourFromTime t) (MinFromTime t) (SecFromTime t) (msFromTime t)) = t"
proof -
  define a where "a = t div 1000"
  define b where "b = a div 60"
  define c where "c = b div 60"
  define e where "e = c div 24"
  have b: "t div 60000 = b"
    unfolding b_def a_def using zdiv_zmult2_eq [of 60 t 1000] by simp
  have c: "t div 3600000 = c"
    unfolding c_def b [symmetric] using zdiv_zmult2_eq [of 60 t 60000] by simp
  have e: "t div 86400000 = e"
    unfolding e_def c [symmetric] using zdiv_zmult2_eq [of 24 t 3600000] by simp
  have 1: "t = 1000 * a + t mod 1000" by (simp add: a_def)
  have 2: "a = 60 * b + a mod 60" by (simp add: b_def)
  have 3: "b = 60 * c + b mod 60" by (simp add: c_def)
  have 4: "c = 24 * e + c mod 24" by (simp add: e_def)
  have "MakeDate (Day t) (MakeTime (HourFromTime t) (MinFromTime t) (SecFromTime t) (msFromTime t))
      = e * 86400000 + (c mod 24 * 3600000 + b mod 60 * 60000 + a mod 60 * 1000 + t mod 1000)"
    by (simp add: MakeDate_def Day_def msPerDay_def MakeTime_def HourFromTime_def MinFromTime_def
        SecFromTime_def msFromTime_def b c e a_def [symmetric])
  also have "\<dots> = 1000 * (60 * (60 * (24 * e + c mod 24) + b mod 60) + a mod 60) + t mod 1000"
    by (simp add: algebra_simps)
  also have "\<dots> = t"
    using 1 2 3 4 by simp
  finally show ?thesis .
qed

lemma time_ranges:
  "0 \<le> HourFromTime t" "HourFromTime t \<le> 23" "0 \<le> MinFromTime t" "MinFromTime t \<le> 59"
  "0 \<le> SecFromTime t" "SecFromTime t \<le> 59" "0 \<le> msFromTime t" "msFromTime t \<le> 999"
  by (simp_all add: HourFromTime_def MinFromTime_def SecFromTime_def msFromTime_def)

lemma foldl_digits_zeros:
  "foldl (\<lambda>acc c. 10 * acc + digit_val c) 0 (replicate k CHR ''0'') = 0"
  by (induction k) (simp_all add: digit_val_def)

lemma foldl_digits_string_of_nat:
  "foldl (\<lambda>acc c. 10 * acc + digit_val c) 0 (string_of_nat n) = n"
proof (induction n rule: string_of_nat.induct)
  case (1 n)
  show ?case
  proof (cases "n < 10")
    case True
    then show ?thesis by (simp add: string_of_nat.simps [of n] digit_val_digit_char)
  next
    case False
    then show ?thesis
      using "1.IH" by (simp add: string_of_nat.simps [of n] digit_val_digit_char)
  qed
qed

lemma string_of_nat_nonempty: "string_of_nat n \<noteq> []"
  using string_of_nat_length_pos [of n] by auto

lemma parse_nat_field: "0 \<le> v \<Longrightarrow> parse_nat (field w v) = Some (nat v)"
  using padStart_digits [OF string_of_nat_digits, of w "nat v"]
  by (simp add: parse_nat_def field_def)
    (simp add: padStart_def foldl_digits_zeros foldl_digits_string_of_nat string_of_nat_nonempty)

lemma string_of_nat_length_le:
  "n < 10 ^ Suc w \<Longrightarrow> length (string_of_nat n) \<le> Suc w"
proof (induction w arbitrary: n)
  case 0
  then show ?case by (simp add: string_of_nat_length [of n])
next
  case (Suc w)
  show ?case
  proof (cases "n < 10")
    case True
    then show ?thesis by (simp add: string_of_nat_length [of n])
  next
    case False
    have "n div 10 < 10 ^ Suc w" using Suc.prems by (simp add: less_mult_imp_div_less)
    then have "length (string_of_nat (n div 10)) \<le> Suc w" by (rule Suc.IH)
    then show ?thesis using False by (simp add: string_of_nat_length [of n])
  qed
qed

lemma length_field:
  assumes "0 < w" and "0 \<le> v" and "v < 10 ^ w"
  shows "length (field w v) = w"
proof -
  obtain k where w: "w = Suc k" using assms(1) by (cases w) auto
  have "nat v < 10 ^ w"
    using assms(2,3) by (metis nat_less_iff of_nat_numeral of_nat_power)
  then have "length (string_of_nat (nat v)) \<le> w"
    unfolding w by (rule string_of_nat_length_le)
  then show ?thesis by (simp add: field_def padStart_def)
qed

lemma length_field_2: "0 \<le> v \<Longrightarrow> v \<le> 99 \<Longrightarrow> length (field 2 v) = 2"
  by (rule length_field) simp_all

lemma length_field_3: "0 \<le> v \<Longrightarrow> v \<le> 999 \<Longrightarrow> length (field 3 v) = 3"
  by (rule length_field) simp_all

lemma length_field_4: "0 \<le> v \<Longrightarrow> v \<le> 9999 \<Longrightarrow> length (field 4 v) = 4"
  by (rule length_field) simp_all

lemma length_field_6: "0 \<le> v \<Longrightarrow> v \<le> 999999 \<Longrightarrow> length (field 6 v) = 6"
  by (rule length_field) simp_all

lemma field_digits: "list_all is_digit (field w v)"
  by (simp add: field_def padStart_digits string_of_nat_digits)

section \<open>Reading back what \<open>toISOString\<close> wrote\<close>

lemma length_2_list: "length xs = 2 \<Longrightarrow> \<exists>a b. xs = [a, b]"
  by (auto simp: length_Suc_conv numeral_2_eq_2)

lemma length_3_list: "length xs = 3 \<Longrightarrow> \<exists>a b c. xs = [a, b, c]"
  by (auto simp: length_Suc_conv numeral_3_eq_3)

lemma parse_tail_fields:
  assumes len: "length f1 = 2" "length f2 = 2" "length f3 = 2" "length f4 = 2" "length f5 = 2"
      "length f6 = 3"
    and p: "parse_nat f1 = Some mo" "parse_nat f2 = Some dt" "parse_nat f3 = Some h"
      "parse_nat f4 = Some mi" "parse_nat f5 = Some sec" "parse_nat f6 = Some ms"
  shows "parse_tail y (''-'' @ f1 @ ''-'' @ f2 @ ''T'' @ f3 @ '':'' @ f4 @ '':'' @ f5 @ ''.'' @ f6 @ ''Z'')
     = (if 1 \<le> mo \<and> mo \<le> 12 \<and> 1 \<le> dt \<and> dt \<le> 31 \<and> mi \<le> 59 \<and> sec \<le> 59
           \<and> (h \<le> 23 \<or> (h = 24 \<and> mi = 0 \<and> sec = 0 \<and> ms = 0))
        then TimeClip (MakeDate (MakeDay y (int mo - 1) (int dt))
                                (MakeTime (int h) (int mi) (int sec) (int ms)))
        else InvalidDate)"
proof -
  obtain a1 b1 where f1: "f1 = [a1, b1]" using len(1) length_2_list by blast
  obtain a2 b2 where f2: "f2 = [a2, b2]" using len(2) length_2_list by blast
  obtain a3 b3 where f3: "f3 = [a3, b3]" using len(3) length_2_list by blast
  obtain a4 b4 where f4: "f4 = [a4, b4]" using len(4) length_2_list by blast
  obtain a5 b5 where f5: "f5 = [a5, b5]" using len(5) length_2_list by blast
  obtain a6 b6 c6 where f6: "f6 = [a6, b6, c6]" using len(6) length_3_list by blast
  show ?thesis
    using p unfolding f1 f2 f3 f4 f5 f6
    by (simp add: parse_tail_def substring_def)
qed

lemma length_iso_tail:
  assumes "0 \<le> m" "m \<le> 11" "1 \<le> dt" "dt \<le> 31"
  shows "length (iso_tail m dt t) = 20"
  using assms time_ranges [of t]
  by (simp add: iso_tail_def length_field_2 length_field_3)

lemma parse_iso_tail:
  assumes "0 \<le> m" "m \<le> 11" "1 \<le> dt" "dt \<le> 31"
  shows "parse_tail y (iso_tail m dt t) =
     TimeClip (MakeDate (MakeDay y m dt)
       (MakeTime (HourFromTime t) (MinFromTime t) (SecFromTime t) (msFromTime t)))"
proof -
  note r = time_ranges [of t]
  have eq: "parse_tail y (iso_tail m dt t) =
     (if 1 \<le> nat (m + 1) \<and> nat (m + 1) \<le> 12 \<and> 1 \<le> nat dt \<and> nat dt \<le> 31
         \<and> nat (MinFromTime t) \<le> 59 \<and> nat (SecFromTime t) \<le> 59
         \<and> (nat (HourFromTime t) \<le> 23
              \<or> (nat (HourFromTime t) = 24 \<and> nat (MinFromTime t) = 0 \<and> nat (SecFromTime t) = 0
                  \<and> nat (msFromTime t) = 0))
      then TimeClip (MakeDate (MakeDay y (int (nat (m + 1)) - 1) (int (nat dt)))
             (MakeTime (int (nat (HourFromTime t))) (int (nat (MinFromTime t)))
                (int (nat (SecFromTime t))) (int (nat (msFromTime t)))))
      else InvalidDate)"
    unfolding iso_tail_def using assms r
    by (intro parse_tail_fields length_field_2 length_field_3 parse_nat_field) simp_all
  have c: "1 \<le> nat (m + 1)" "nat (m + 1) \<le> 12" "1 \<le> nat dt" "nat dt \<le> 31"
    "nat (HourFromTime t) \<le> 23" "nat (MinFromTime t) \<le> 59" "nat (SecFromTime t) \<le> 59"
    using assms r by linarith+
  have i: "int (nat (m + 1)) - 1 = m" "int (nat dt) = dt"
    "int (nat (HourFromTime t)) = HourFromTime t" "int (nat (MinFromTime t)) = MinFromTime t"
    "int (nat (SecFromTime t)) = SecFromTime t" "int (nat (msFromTime t)) = msFromTime t"
    using assms r by simp_all
  show ?thesis unfolding eq i using c by simp
qed

lemma field_4_chars:
  assumes "0 \<le> y" "y \<le> 9999"
  shows "\<exists>a b c d. field 4 y = [a, b, c, d] \<and> is_digit a"
proof -
  have "length (field 4 y) = 4" using assms by (rule length_field_4)
  then obtain a b c d where f: "field 4 y = [a, b, c, d]"
    by (auto simp: length_Suc_conv eval_nat_numeral)
  have "list_all is_digit (field 4 y)" by (rule field_digits)
  then show ?thesis unfolding f by simp
qed

lemma digit_not_sign: "is_digit a \<Longrightarrow> a \<noteq> CHR ''+'' \<and> a \<noteq> CHR ''-''"
  by (auto simp: is_digit_def)

lemma parse_iso_year:
  assumes y: "- 999999 \<le> y" "y \<le> 999999" and len: "length rest = 20"
  shows "parse_iso (year_string y @ rest) = parse_tail y rest"
proof (cases "0 \<le> y \<and> y \<le> 9999")
  case True
  then obtain a b c d where f: "field 4 y = [a, b, c, d]" and a: "is_digit a"
    using field_4_chars by blast
  have p: "parse_nat [a, b, c, d] = Some (nat y)"
    using parse_nat_field [of y 4] True by (simp add: f)
  show ?thesis
    using True digit_not_sign [OF a] p len
    by (simp add: year_string_def f parse_iso_def)
next
  case False
  have l6: "length (field 6 (abs y)) = 6" using y by (intro length_field_6) simp_all
  have p: "parse_nat (field 6 (abs y)) = Some (nat (abs y))" by (rule parse_nat_field) simp
  show ?thesis
  proof (cases "y < 0")
    case True
    then show ?thesis
      using False l6 p len by (simp add: year_string_def parse_iso_def)
  next
    case False2: False
    then show ?thesis
      using False l6 p len by (simp add: year_string_def parse_iso_def)
  qed
qed

lemma Day_range:
  assumes "valid_time t"
  shows "- 100000000 \<le> Day t" "Day t \<le> 100000000"
proof -
  have t: "- 8640000000000000 \<le> t" "t \<le> 8640000000000000"
    using assms by (simp_all add: valid_time_def)
  have "(- 8640000000000000) div 86400000 \<le> t div (86400000 :: int)"
    using t(1) by (intro zdiv_mono1) simp_all
  then show "- 100000000 \<le> Day t" by (simp add: Day_def msPerDay_def)
  have "t div (86400000 :: int) \<le> 8640000000000000 div 86400000"
    using t(2) by (intro zdiv_mono1) simp_all
  then show "Day t \<le> 100000000" by (simp add: Day_def msPerDay_def)
qed

theorem parse_iso_toISOString:
  assumes "valid_time t"
  shows "parse_iso (toISOString t) = Date t"
proof -
  define n where "n = Day t"
  define y where "y = YearFromDay n"
  define d where "d = n - DayFromYear y"
  define m where "m = month_of (leap_days y) d"
  define dt where "dt = d - month_start (leap_days y) m + 1"
  have d: "0 \<le> d" "d < 365 + leap_days y"
    unfolding d_def y_def by (rule day_within_year)+
  have m: "0 \<le> m" "m \<le> 11" "1 \<le> dt" "dt \<le> 31"
    unfolding m_def dt_def using leap_days_range [of y] d by (rule month_of_range)+
  have yr: "- 999999 \<le> y" "y \<le> 999999"
    unfolding y_def n_def using Day_range [OF assms] by (rule YearFromDay_range)+
  have iso: "toISOString t = year_string y @ iso_tail m dt t"
    by (simp add: toISOString_def Let_def iso_tail_def n_def y_def d_def m_def dt_def)
  have day: "MakeDay y m dt = n"
    by (simp add: MakeDay_def dt_def d_def)
  have "parse_iso (toISOString t) = parse_tail y (iso_tail m dt t)"
    unfolding iso using yr length_iso_tail [OF m] by (rule parse_iso_year)
  also have "\<dots> = TimeClip (MakeDate n
       (MakeTime (HourFromTime t) (MinFromTime t) (SecFromTime t) (msFromTime t)))"
    using parse_iso_tail [OF m] day by simp
  also have "\<dots> = TimeClip t" by (simp add: n_def time_parts)
  also have "\<dots> = Date t" using assms by (simp add: TimeClip_def valid_time_def)
  finally show ?thesis .
qed

section \<open>Persisting and loading\<close>

lemma revive_json_task:
  assumes "dated (Some t)"
  shows "revive (Some (json_task t)) = Inr t"
proof -
  obtain ms where c: "createdAt t = Some (DateObj (Date ms))" and v: "valid_time ms"
    using assms by (auto simp: dated_def split: option.splits created.splits date.splits)
  have "revive (Some (json_task t)) = Inr (t\<lparr>createdAt := Some (DateObj (Date ms))\<rparr>)"
    using parse_iso_toISOString [OF v]
    by (simp add: revive_def json_task_def json_created_def new_Date_def c)
  also have "t\<lparr>createdAt := Some (DateObj (Date ms))\<rparr> = t"
    using c by simp
  finally show ?thesis .
qed

lemma revive_all_json:
  "list_all dated es \<Longrightarrow> revive_all (map (map_option json_task) es) = Inr (map the es)"
proof (induction es)
  case Nil
  then show ?case by simp
next
  case (Cons e es)
  then obtain t where e: "e = Some t" by (cases e) (auto simp: dated_def)
  show ?case using Cons by (simp add: e revive_json_task)
qed

lemma dated_Some_the: "list_all dated es \<Longrightarrow> map (Some \<circ> the) es = es"
  by (induction es) (auto simp: dated_def split: option.splits)

lemma serialize_dated:
  "list_all dated es \<Longrightarrow> serialize_tasks es = Inr (map (map_option json_task) es)"
proof (induction es)
  case Nil
  then show ?case by simp
next
  case (Cons e es)
  then obtain t where e: "e = Some t" by (cases e) (auto simp: dated_def)
  obtain ms where c: "createdAt t = Some (DateObj (Date ms))"
    using Cons.prems e by (auto simp: dated_def split: option.splits created.splits date.splits)
  have "serialize_task t = Inr (json_task t)"
    by (simp add: serialize_task_def serialize_created_def date_toISOString_def json_task_def
        json_created_def c)
  then show ?case using Cons by (simp add: e)
qed

text \<open>
  Claim C4. For a task sequence whose elements are tasks with a valid \<open>Date\<close> as
  \<open>createdAt\<close>, writing the sequence to the store and loading it again, as the
  constructor does, gives the same sequence: every task has all its properties as
  before, and its \<open>createdAt\<close> is a \<open>Date\<close> with the same time value in milliseconds.
  The serialisation that \<open>_updateWebview\<close> sends is the same JSON, so it reads back
  in the same way.
\<close>

theorem persist_load_roundtrip:
  assumes "list_all dated (list_tasks s)"
  shows "load_tasks (globalState (globalState_update s))
           = Inr \<lparr>elems = list_tasks s, props = Map.empty\<rparr>
       \<and> (\<exists>p. new_provider (globalState (globalState_update s)) c now = Inr p
              \<and> list_tasks p = list_tasks s)
       \<and> serialize_tasks (list_tasks s) = Inr (json_tasks (tasks s))
       \<and> load_tasks (Some (json_tasks (tasks s))) = Inr \<lparr>elems = list_tasks s, props = Map.empty\<rparr>"
proof -
  have l: "load_tasks (Some (json_tasks (tasks s))) = Inr \<lparr>elems = list_tasks s, props = Map.empty\<rparr>"
    using assms
    by (simp add: load_tasks_def json_tasks_def list_tasks_def revive_all_json dated_Some_the)
  have s: "serialize_tasks (list_tasks s) = Inr (json_tasks (tasks s))"
    using assms by (simp add: serialize_dated json_tasks_def list_tasks_def)
  show ?thesis
    using l s by (simp add: new_provider_def list_tasks_def)
qed

theorem persist_load_roundtrip_witness:
  "list_all dated (list_tasks two_tasks)
   \<and> globalState (globalState_update two_tasks)
       = Some [Some (task_a\<lparr>createdAt := Some (StrVal ''2023-11-14T22:13:20.123Z'')\<rparr>),
               Some (task_b\<lparr>createdAt := Some (StrVal ''2023-11-14T22:14:20.000Z'')\<rparr>)]
   \<and> load_tasks (globalState (globalState_update two_tasks))
       = Inr \<lparr>elems = [Some task_a, Some task_b], props = Map.empty\<rparr>"
proof -
  have l: "list_tasks two_tasks = [Some task_a, Some task_b]"
    by (simp add: list_tasks_def two_tasks_def)
  have h: "list_all dated (list_tasks two_tasks)"
    by (simp add: l dated_def task_a_def task_b_def new_task_def valid_time_def)
  have a: "toISOString 1700000000123 = ''2023-11-14T22:13:20.123Z''" by code_simp
  have b: "toISOString 1700000060000 = ''2023-11-14T22:14:20.000Z''" by code_simp
  have g: "globalState (globalState_update two_tasks)
       = Some [Some (task_a\<lparr>createdAt := Some (StrVal ''2023-11-14T22:13:20.123Z'')\<rparr>),
               Some (task_b\<lparr>createdAt := Some (StrVal ''2023-11-14T22:14:20.000Z'')\<rparr>)]"
    by (simp add: json_tasks_def two_tasks_def json_task_def json_created_def task_a_def
        task_b_def new_task_def a b)
  show ?thesis
    using persist_load_roundtrip [OF h] h g l by simp
qed

end
